theory Spec2Isabelle
  imports Main
begin

section \<open>JavaScript strings\<close>

text \<open>
  A JavaScript string is modelled as a \<open>string\<close> whose characters are the code units
  0 to 255 (Latin-1), one \<open>char\<close> per UTF-16 code unit, so that \<open>length\<close> is the
  \<open>.length\<close> of the source. The helpers below are the built-ins the source calls, on that
  range.
\<close>

definition is_space :: "char \<Rightarrow> bool" where
  \<comment> \<open>the class \<open>\s\<close> of a regular expression, also what \<open>trim\<close> removes:
      TAB, LF, VT, FF, CR, SPACE, NBSP\<close>
  "is_space c = (of_char c \<in> {9, 10, 11, 12, 13, 32, 160 :: nat})"

definition is_lower_alnum :: "char \<Rightarrow> bool" where
  \<comment> \<open>the class \<open>[a-z0-9]\<close>\<close>
  "is_lower_alnum c = (let n = (of_char c :: nat) in (97 \<le> n \<and> n \<le> 122) \<or> (48 \<le> n \<and> n \<le> 57))"

definition lower_char :: "char \<Rightarrow> char" where
  \<comment> \<open>A-Z and the Latin-1 capitals (all of 192 to 222 but the multiplication sign)
      have their small letter 32 places further\<close>
  "lower_char c = (let n = (of_char c :: nat) in
     if (65 \<le> n \<and> n \<le> 90) \<or> (192 \<le> n \<and> n \<le> 222 \<and> n \<noteq> 215) then char_of (n + 32) else c)"

definition toLowerCase :: "string \<Rightarrow> string" where
  "toLowerCase s = map lower_char s"

text \<open>\<open>s.split(/\s+/)\<close>: the pieces between the maximal runs of white space; a run at
  the start or at the end leaves an empty piece there, and the empty string gives one
  empty piece.\<close>

function split_ws :: "string \<Rightarrow> string list" where
  "split_ws s =
     (let tok = takeWhile (\<lambda>c. \<not> is_space c) s;
          rest = dropWhile (\<lambda>c. \<not> is_space c) s
      in if rest = [] then [tok] else tok # split_ws (dropWhile is_space rest))"
  by pat_completeness auto
termination
proof (relation "measure length")
  show "wf (measure length)" by simp
next
  fix s :: string and tok rest
  assume r: "rest = dropWhile (\<lambda>c. \<not> is_space c) s" and ne: "rest \<noteq> []"
  from ne obtain c cs where rc: "rest = c # cs" by (cases rest) auto
  have "dropWhile (\<lambda>c. \<not> is_space c) s \<noteq> []"
    using ne r by blast
  then have "\<not> \<not> is_space (hd (dropWhile (\<lambda>c. \<not> is_space c) s))"
    by (rule hd_dropWhile)
  then have "is_space (hd rest)" unfolding r by blast
  then have "is_space c" unfolding rc by simp
  then have "length (dropWhile is_space rest) \<le> length cs"
    using rc length_dropWhile_le [of is_space cs] by simp
  moreover have "length rest \<le> length s"
    using r length_dropWhile_le [of "\<lambda>c. \<not> is_space c" s] by simp
  ultimately show "(dropWhile is_space rest, s) \<in> measure length"
    using rc by simp
qed

declare split_ws.simps [simp del]

text \<open>\<open>s.split(",")\<close>: the pieces between the commas, empty pieces kept.\<close>

fun split_comma :: "string \<Rightarrow> string list" where
  "split_comma [] = [[]]"
| "split_comma (c # cs) =
     (if c = CHR '','' then [] # split_comma cs
      else (case split_comma cs of [] \<Rightarrow> [[c]] | t # ts \<Rightarrow> (c # t) # ts))"

definition trim :: "string \<Rightarrow> string" where
  "trim s = rev (dropWhile is_space (rev (dropWhile is_space s)))"

text \<open>\<open>xs.join(sep)\<close>\<close>

fun join :: "string \<Rightarrow> string list \<Rightarrow> string" where
  "join sep [] = []"
| "join sep [x] = x"
| "join sep (x # y # ys) = x @ sep @ join sep (y # ys)"

definition startsWith :: "string \<Rightarrow> string \<Rightarrow> bool" where
  "startsWith s p = (take (length p) s = p)"

text \<open>The truth value of an optional string in a condition: \<open>undefined\<close> and the empty
  string are false.\<close>

fun truthy :: "string option \<Rightarrow> bool" where
  "truthy None = False"
| "truthy (Some s) = (s \<noteq> [])"

section \<open>Hashtag suggestions (page.tsx)\<close>

definition COMMON_SKIP :: "string list" where
  "COMMON_SKIP = [''the'', ''and'', ''with'', ''your'', ''that'', ''this'', ''from'',
     ''about'', ''shorts'', ''video'', ''youtube'']"

definition extractHashtags :: "string \<Rightarrow> string list" where
  "extractHashtags input =
     filter (\<lambda>t. t \<noteq> [])
       (map (\<lambda>tag. filter (\<lambda>c. is_lower_alnum c \<or> c = CHR ''_'') tag)
          (filter (\<lambda>token. startsWith token ''#'')
             (split_ws (toLowerCase input))))"

text \<open>The \<open>Map\<close> of the source keeps its keys in the order of their first insertion: an
  association list, \<open>hist_set\<close> overwriting in place or appending.\<close>

fun hist_set :: "(string \<times> nat) list \<Rightarrow> string \<Rightarrow> nat \<Rightarrow> (string \<times> nat) list" where
  "hist_set [] k v = [(k, v)]"
| "hist_set ((k', v') # m) k v = (if k' = k then (k, v) # m else (k', v') # hist_set m k v)"

definition hist_get :: "(string \<times> nat) list \<Rightarrow> string \<Rightarrow> nat option" where
  "hist_get m k = map_of m k"

definition histogram_of :: "string list \<Rightarrow> (string \<times> nat) list" where
  "histogram_of tokens =
     foldl (\<lambda>histogram token.
              hist_set histogram token ((case hist_get histogram token of None \<Rightarrow> 0 | Some n \<Rightarrow> n) + 1))
       [] tokens"

text \<open>\<open>sort((a, b) => b[1] - a[1])\<close>: a stable sort, the larger count first.\<close>

definition sort_by_count_desc :: "(string \<times> nat) list \<Rightarrow> (string \<times> nat) list" where
  "sort_by_count_desc es = sort_key (\<lambda>e. - int (snd e)) es"

text \<open>\<open>[...new Set(xs)]\<close>: the first occurrence of each element, in order.\<close>

fun dedup_from :: "string list \<Rightarrow> string list \<Rightarrow> string list" where
  "dedup_from seen [] = []"
| "dedup_from seen (x # xs) =
     (if x \<in> set seen then dedup_from seen xs else x # dedup_from (x # seen) xs)"

definition dedup :: "string list \<Rightarrow> string list" where
  "dedup xs = dedup_from [] xs"

definition hashtag_tokens :: "string \<Rightarrow> string \<Rightarrow> string \<Rightarrow> string list" where
  "hashtag_tokens title description tags =
     filter (\<lambda>word. length word > 3 \<and> word \<notin> set COMMON_SKIP)
       (split_ws
          (map (\<lambda>c. if is_lower_alnum c \<or> is_space c then c else CHR '' '')
             (toLowerCase (title @ '' '' @ description @ '' '' @ tags))))"

definition ranked_hashtags :: "string \<Rightarrow> string \<Rightarrow> string \<Rightarrow> string list" where
  "ranked_hashtags title description tags =
     map (\<lambda>(word, n). CHR ''#'' # filter is_lower_alnum word)
       (take 5 (sort_by_count_desc (histogram_of (hashtag_tokens title description tags))))"

definition generateHashtags :: "string \<Rightarrow> string \<Rightarrow> string \<Rightarrow> string list" where
  "generateHashtags title description tags =
     (let ranked = ranked_hashtags title description tags;
          inline = take 3 (extractHashtags description);
          deduped = dedup (inline @ ranked)
      in take 8 deduped)"

section \<open>Dates\<close>

text \<open>
  A \<open>Date\<close> object holds a time value, the milliseconds since the epoch in UTC, or NaN
  (an invalid date): \<open>Some ms\<close> or \<open>None\<close>. The parser behind \<open>new Date(string)\<close> belongs
  to the host: what it accepts beyond the ISO format depends on the engine, and a date-time
  without an offset is read in the local time zone of the user. It is the parameter
  \<open>parse\<close> of the functions below. \<open>toISOString\<close> is the same everywhere and is written
  out.
\<close>

type_synonym jsdate = "int option"

definition digit :: "int \<Rightarrow> char" where
  \<comment> \<open>the last decimal digit of \<open>n\<close>\<close>
  "digit n = ''0123456789'' ! nat (n mod 10)"

definition pad2 :: "int \<Rightarrow> string" where
  "pad2 n = [digit (n div 10), digit n]"

definition pad3 :: "int \<Rightarrow> string" where
  "pad3 n = digit (n div 100) # pad2 n"

definition pad4 :: "int \<Rightarrow> string" where
  "pad4 n = digit (n div 1000) # pad3 n"

definition pad6 :: "int \<Rightarrow> string" where
  "pad6 n = digit (n div 100000) # digit (n div 10000) # pad4 n"

definition civil_from_days :: "int \<Rightarrow> int \<times> int \<times> int" where
  \<comment> \<open>year, month (1 to 12) and day of the month of a day number counted from 1970-01-01\<close>
  "civil_from_days z0 =
     (let z = z0 + 719468;
          era = z div 146097;
          doe = z - era * 146097;
          yoe = (doe - doe div 1460 + doe div 36524 - doe div 146096) div 365;
          y = yoe + era * 400;
          doy = doe - (365 * yoe + yoe div 4 - yoe div 100);
          mp = (5 * doy + 2) div 153;
          d = doy - (153 * mp + 2) div 5 + 1;
          m = (if mp < 10 then mp + 3 else mp - 9)
      in (if m \<le> 2 then y + 1 else y, m, d))"

definition toISOString :: "int \<Rightarrow> string" where
  "toISOString t =
     (let (y, m, d) = civil_from_days (t div 86400000);
          ms = t mod 86400000;
          year = (if 0 \<le> y \<and> y \<le> 9999 then pad4 y
                  else (if y < 0 then ''-'' else ''+'') @ pad6 \<bar>y\<bar>)
      in year @ ''-'' @ pad2 m @ ''-'' @ pad2 d @ ''T''
         @ pad2 (ms div 3600000) @ '':'' @ pad2 (ms div 60000 mod 60) @ '':''
         @ pad2 (ms div 1000 mod 60) @ ''.'' @ pad3 (ms mod 1000) @ ''Z'')"

fun safeToISOString :: "jsdate option \<Rightarrow> string option" where
  "safeToISOString None = None"
| "safeToISOString (Some None) = None"
| "safeToISOString (Some (Some t)) = Some (toISOString t)"

definition buildPublishDate :: "(string \<Rightarrow> jsdate) \<Rightarrow> string \<Rightarrow> string \<Rightarrow> string option" where
  "buildPublishDate parse date time =
     (if date = [] then None
      else let fallbackTime = (if time = [] then ''09:00'' else time);
               iso = parse (date @ ''T'' @ fallbackTime @ '':00'')
           in safeToISOString (Some iso))"

section \<open>The page state and its actions (page.tsx)\<close>

datatype QueueStatus = Draft | Ready | Scheduled | Uploaded

record QueueItem =
  item_id :: string
  item_title :: string
  item_publishAt :: "string option"
  item_status :: QueueStatus
  item_url :: "string option"

datatype privacy = Private | Public | Unlisted

fun privacy_string :: "privacy \<Rightarrow> string" where
  "privacy_string Private = ''private''"
| "privacy_string Public = ''public''"
| "privacy_string Unlisted = ''unlisted''"

text \<open>A \<open>File\<close>: its name, its MIME type and its size in bytes.\<close>

record jsfile =
  file_name :: string
  file_type :: string
  file_size :: int

text \<open>An entry of a \<open>FormData\<close> is a string or a file; \<open>append\<close> adds at the end and
  \<open>get\<close> returns the first entry of that name, or \<open>null\<close>.\<close>

datatype jsval = Undefined | Null | Str string | FileObj jsfile

type_synonym formdata = "(string \<times> jsval) list"

definition fd_append :: "formdata \<Rightarrow> string \<Rightarrow> jsval \<Rightarrow> formdata" where
  "fd_append fd name v = fd @ [(name, v)]"

definition fd_get :: "formdata \<Rightarrow> string \<Rightarrow> jsval" where
  "fd_get fd name = (case map_of fd name of None \<Rightarrow> Null | Some v \<Rightarrow> v)"

text \<open>
  The parsed JSON body of a response, as far as the page reads it: the properties
  \<open>error\<close>, \<open>videoId\<close> and \<open>url\<close>, each a string, or \<open>None\<close> when the property is absent or
  null. \<open>UploadResult\<close> is that object after an unchecked cast.
\<close>

record json_data =
  error_prop :: "string option"
  videoId_prop :: "string option"
  url_prop :: "string option"

type_synonym UploadResult = json_data

text \<open>A thrown value is an \<open>Error\<close> with its message, or something else.\<close>

datatype thrown = ErrorObj string | NonError

text \<open>What \<open>fetch\<close> gives: a rejection (no response at all), or a response with its
  status and with what \<open>response.json()\<close> gives, a rejection when the body is not JSON.\<close>

record response =
  status :: nat
  json :: "thrown + json_data"

definition ok :: "response \<Rightarrow> bool" where
  "ok r = (200 \<le> status r \<and> status r \<le> 299)"

datatype fetch_result = Rejected thrown | Resolved response

text \<open>The state of the page component; \<open>short_file\<close> is the state variable \<open>file\<close>.\<close>

record page =
  short_file :: "jsfile option"
  title :: string
  description :: string
  tagsInput :: string
  privacyStatus :: privacy
  scheduleDate :: string
  scheduleTime :: string
  madeForKids :: bool
  notifySubscribers :: bool
  categoryId :: string
  defaultLanguage :: string
  uploading :: bool
  error :: "string option"
  result :: "UploadResult option"
  queue :: "QueueItem list"

text \<open>The initial state; \<open>hashtags\<close> is the environment's \<open>NEXT_PUBLIC_DEFAULT_HASHTAGS\<close>,
  the empty string when it is not set.\<close>

definition initial_page :: "string \<Rightarrow> page" where
  "initial_page hashtags =
     \<lparr>short_file = None, title = [], description = [], tagsInput = hashtags,
      privacyStatus = Private, scheduleDate = [], scheduleTime = [],
      madeForKids = False, notifySubscribers = False, categoryId = ''24'',
      defaultLanguage = ''en'', uploading = False, error = None, result = None,
      queue = []\<rparr>"

definition autoHashtags :: "page \<Rightarrow> string" where
  "autoHashtags st = join '', '' (generateHashtags (title st) (description st) (tagsInput st))"

text \<open>\<open>randomId()\<close> draws from \<open>Math.random\<close>; the string it returns is the argument
  \<open>rid\<close> of \<open>addToQueue\<close>.\<close>

definition addToQueue :: "(string \<Rightarrow> jsdate) \<Rightarrow> string \<Rightarrow> page \<Rightarrow> page" where
  "addToQueue parse rid st =
     (let publishAt = buildPublishDate parse (scheduleDate st) (scheduleTime st)
      in st\<lparr>queue := queue st @
           [\<lparr>item_id = rid,
             item_title = (if title st = [] then ''Untitled Short'' else title st),
             item_publishAt = publishAt,
             item_status = (if truthy publishAt then Scheduled else Draft),
             item_url = None\<rparr>]\<rparr>)"

definition syncTagsWithHashtags :: "page \<Rightarrow> page" where
  "syncTagsWithHashtags st =
     (if trim (tagsInput st) = [] then st\<lparr>tagsInput := autoHashtags st\<rparr> else st)"

definition resetForm :: "page \<Rightarrow> page" where
  "resetForm st =
     st\<lparr>short_file := None, title := [], description := [], tagsInput := [],
        privacyStatus := Private, scheduleDate := [], scheduleTime := [],
        madeForKids := False, notifySubscribers := False, categoryId := ''24'',
        defaultLanguage := ''en''\<rparr>"

definition bool_string :: "bool \<Rightarrow> string" where
  "bool_string b = (if b then ''true'' else ''false'')"

definition submit_formData :: "page \<Rightarrow> jsfile \<Rightarrow> string option \<Rightarrow> formdata" where
  "submit_formData st f publishAt =
     (let fd0 = fd_append [] ''video'' (FileObj f);
          fd1 = fd_append fd0 ''title'' (Str (title st));
          fd2 = fd_append fd1 ''description'' (Str (description st));
          fd3 = fd_append fd2 ''tags'' (Str (tagsInput st));
          fd4 = fd_append fd3 ''privacyStatus'' (Str (privacy_string (privacyStatus st)));
          fd5 = (case publishAt of
                   Some p \<Rightarrow> if p \<noteq> [] then fd_append fd4 ''publishAt'' (Str p) else fd4
                 | None \<Rightarrow> fd4);
          fd6 = fd_append fd5 ''madeForKids'' (Str (bool_string (madeForKids st)));
          fd7 = fd_append fd6 ''notifySubscribers'' (Str (bool_string (notifySubscribers st)));
          fd8 = fd_append fd7 ''categoryId'' (Str (categoryId st))
      in fd_append fd8 ''defaultLanguage'' (Str (defaultLanguage st)))"

text \<open>The body of the \<open>try\<close> block once the form data is built: what is thrown, or the
  parsed body of a response that is \<open>ok\<close>.\<close>

definition submit_try :: "fetch_result \<Rightarrow> thrown + UploadResult" where
  "submit_try fr =
     (case fr of
        Rejected e \<Rightarrow> Inl e
      | Resolved r \<Rightarrow>
          (if \<not> ok r then
             (case json r of
                Inl e \<Rightarrow> Inl e
              | Inr data \<Rightarrow>
                  Inl (ErrorObj (case error_prop data of None \<Rightarrow> ''Upload failed.'' | Some m \<Rightarrow> m)))
           else json r))"

definition mark_uploaded :: "string \<Rightarrow> UploadResult \<Rightarrow> QueueItem \<Rightarrow> QueueItem" where
  "mark_uploaded t data item =
     (if \<not> truthy (item_url item) \<and> t \<noteq> [] \<and> item_title item = t
      then item\<lparr>item_status := Uploaded, item_url := url_prop data\<rparr>
      else item)"

text \<open>
  \<open>handleSubmit\<close> as one transition: the state after the handler has finished, and the
  requests it has sent. \<open>fetch\<close> is the network and the server behind it.
\<close>

definition handleSubmit ::
  "(string \<Rightarrow> jsdate) \<Rightarrow> (formdata \<Rightarrow> fetch_result) \<Rightarrow> page \<Rightarrow> page \<times> formdata list" where
  "handleSubmit parse fetch st =
     (let st1 = st\<lparr>error := None, result := None\<rparr>
      in case short_file st of
           None \<Rightarrow> (st1\<lparr>error := Some ''Attach a Short before uploading.''\<rparr>, [])
         | Some f \<Rightarrow>
             (let publishAt = buildPublishDate parse (scheduleDate st) (scheduleTime st)
              in if truthy publishAt \<and> privacyStatus st = Public
                 then (st1\<lparr>error :=
                         Some ''Scheduled Shorts must use private or unlisted privacy until publish time.''\<rparr>, [])
                 else
                   (let formData = submit_formData st f publishAt;
                        st2 = (case submit_try (fetch formData) of
                                 Inr data \<Rightarrow>
                                   resetForm
                                     (st1\<lparr>result := Some data,
                                          queue := map (mark_uploaded (title st) data) (queue st1)\<rparr>)
                               | Inl (ErrorObj m) \<Rightarrow> st1\<lparr>error := Some m\<rparr>
                               | Inl NonError \<Rightarrow> st1\<lparr>error := Some ''Something went wrong.''\<rparr>)
                    in (st2\<lparr>uploading := False\<rparr>, [formData]))))"

text \<open>The user's actions; \<open>AddToQueue\<close> carries the identifier drawn by \<open>randomId\<close> and
  \<open>Submit\<close> the behaviour of the network during that submission.\<close>

datatype action =
    SetFile "jsfile option"
  | SetTitle string
  | SetDescription string
  | SetTagsInput string
  | SetPrivacyStatus privacy
  | SetScheduleDate string
  | SetScheduleTime string
  | SetMadeForKids bool
  | SetNotifySubscribers bool
  | SetCategoryId string
  | SetDefaultLanguage string
  | SyncTags
  | AddToQueue string
  | ResetForm
  | Submit "formdata \<Rightarrow> fetch_result"

fun step :: "(string \<Rightarrow> jsdate) \<Rightarrow> page \<Rightarrow> action \<Rightarrow> page" where
  "step parse st (SetFile f) = st\<lparr>short_file := f\<rparr>"
| "step parse st (SetTitle s) = st\<lparr>title := s\<rparr>"
| "step parse st (SetDescription s) = st\<lparr>description := s\<rparr>"
| "step parse st (SetTagsInput s) = st\<lparr>tagsInput := s\<rparr>"
| "step parse st (SetPrivacyStatus p) = st\<lparr>privacyStatus := p\<rparr>"
| "step parse st (SetScheduleDate s) = st\<lparr>scheduleDate := s\<rparr>"
| "step parse st (SetScheduleTime s) = st\<lparr>scheduleTime := s\<rparr>"
| "step parse st (SetMadeForKids b) = st\<lparr>madeForKids := b\<rparr>"
| "step parse st (SetNotifySubscribers b) = st\<lparr>notifySubscribers := b\<rparr>"
| "step parse st (SetCategoryId s) = st\<lparr>categoryId := s\<rparr>"
| "step parse st (SetDefaultLanguage s) = st\<lparr>defaultLanguage := s\<rparr>"
| "step parse st SyncTags = syncTagsWithHashtags st"
| "step parse st (AddToQueue rid) = addToQueue parse rid st"
| "step parse st ResetForm = resetForm st"
| "step parse st (Submit fetch) = fst (handleSubmit parse fetch st)"

definition run :: "(string \<Rightarrow> jsdate) \<Rightarrow> page \<Rightarrow> action list \<Rightarrow> page" where
  "run parse st acts = foldl (step parse) st acts"

section \<open>The upload route: validation and hand-over (route.ts)\<close>

definition MAX_FILE_SIZE_BYTES :: int where
  "MAX_FILE_SIZE_BYTES = 1024 * 1024 * 1024"

subsection \<open>The schema\<close>

text \<open>
  The result of parsing one value against a zod schema: an exception of a transform, or
  the messages of the issues raised and the value, which is missing when parsing was
  aborted. Parsing succeeds when no issue was raised. The messages zod words itself (for
  a value of the wrong type, for a string outside an enumeration) are parameters:
  \<open>tmsg v\<close> and \<open>emsg v\<close> for the value \<open>v\<close> received.
\<close>

type_synonym 'a parsed = "thrown + (string list \<times> 'a option)"

definition z_string :: "(jsval \<Rightarrow> string) \<Rightarrow> jsval \<Rightarrow> string parsed" where
  "z_string tmsg v = (case v of Str s \<Rightarrow> Inr ([], Some s) | _ \<Rightarrow> Inr ([tmsg v], None))"

definition z_min :: "nat \<Rightarrow> string \<Rightarrow> string parsed \<Rightarrow> string parsed" where
  "z_min n msg p =
     (case p of
        Inr (issues, Some s) \<Rightarrow> if length s < n then Inr (issues @ [msg], Some s) else p
      | _ \<Rightarrow> p)"

text \<open>\<open>optional()\<close> lets \<open>undefined\<close> through and nothing else: \<open>null\<close> goes to the inner
  schema.\<close>

definition z_optional :: "(jsval \<Rightarrow> 'a parsed) \<Rightarrow> jsval \<Rightarrow> 'a option parsed" where
  "z_optional inner v =
     (case v of
        Undefined \<Rightarrow> Inr ([], Some None)
      | _ \<Rightarrow> (case inner v of
                Inl e \<Rightarrow> Inl e
              | Inr (issues, x) \<Rightarrow> Inr (issues, map_option Some x)))"

text \<open>A transform runs only on a value parsed without issue.\<close>

definition z_transform :: "('a \<Rightarrow> thrown + 'b) \<Rightarrow> 'a parsed \<Rightarrow> 'b parsed" where
  "z_transform f p =
     (case p of
        Inl e \<Rightarrow> Inl e
      | Inr ([], Some x) \<Rightarrow> (case f x of Inl e \<Rightarrow> Inl e | Inr y \<Rightarrow> Inr ([], Some y))
      | Inr (issues, _) \<Rightarrow> Inr (issues, None))"

definition z_refine :: "('a \<Rightarrow> bool) \<Rightarrow> string \<Rightarrow> 'a parsed \<Rightarrow> 'a parsed" where
  "z_refine check msg p =
     (case p of
        Inr (issues, Some x) \<Rightarrow> if check x then p else Inr (issues @ [msg], Some x)
      | _ \<Rightarrow> p)"

definition z_enum_privacy :: "(jsval \<Rightarrow> string) \<Rightarrow> jsval \<Rightarrow> privacy parsed" where
  "z_enum_privacy emsg v =
     (case v of
        Str s \<Rightarrow>
          if s = ''public'' then Inr ([], Some Public)
          else if s = ''private'' then Inr ([], Some Private)
          else if s = ''unlisted'' then Inr ([], Some Unlisted)
          else Inr ([emsg v], None)
      | _ \<Rightarrow> Inr ([emsg v], None))"

text \<open>The fields of an object are parsed in the order of the schema; the issues of all of
  them are collected.\<close>

definition z_field :: "('a \<Rightarrow> 'b) parsed \<Rightarrow> 'a parsed \<Rightarrow> 'b parsed" where
  "z_field pf px =
     (case pf of
        Inl e \<Rightarrow> Inl e
      | Inr (issues1, f) \<Rightarrow>
          (case px of
             Inl e \<Rightarrow> Inl e
           | Inr (issues2, x) \<Rightarrow>
               Inr (issues1 @ issues2,
                    (case f of None \<Rightarrow> None | Some g \<Rightarrow> map_option g x))))"

record payload =
  p_title :: string
  p_description :: string
  p_tags :: "string list"
  p_privacyStatus :: privacy
  p_publishAt :: "string option"
  p_madeForKids :: bool
  p_notifySubscribers :: bool
  p_categoryId :: "string option"
  p_defaultLanguage :: "string option"

text \<open>The object handed to \<open>safeParse\<close>: one value per key of the schema.\<close>

record raw_form =
  r_title :: jsval
  r_description :: jsval
  r_tags :: jsval
  r_privacyStatus :: jsval
  r_publishAt :: jsval
  r_madeForKids :: jsval
  r_notifySubscribers :: jsval
  r_categoryId :: jsval
  r_defaultLanguage :: jsval

definition title_schema :: "(jsval \<Rightarrow> string) \<Rightarrow> jsval \<Rightarrow> string parsed" where
  "title_schema tmsg v = z_min 5 ''Title is required.'' (z_string tmsg v)"

definition description_schema :: "(jsval \<Rightarrow> string) \<Rightarrow> jsval \<Rightarrow> string parsed" where
  "description_schema tmsg v = z_min 10 ''Description is required.'' (z_string tmsg v)"

definition tags_schema :: "(jsval \<Rightarrow> string) \<Rightarrow> jsval \<Rightarrow> string list parsed" where
  "tags_schema tmsg v =
     z_transform
       (\<lambda>value. Inr (if truthy value
                       then filter (\<lambda>tag. tag \<noteq> []) (map trim (split_comma (the value)))
                       else []))
       (z_optional (z_string tmsg) v)"

text \<open>\<open>toISOString\<close> of an invalid date throws a RangeError.\<close>

definition date_toISOString :: "jsdate \<Rightarrow> thrown + string" where
  "date_toISOString d =
     (case d of None \<Rightarrow> Inl (ErrorObj ''Invalid time value'') | Some t \<Rightarrow> Inr (toISOString t))"

definition publishAt_schema ::
  "(jsval \<Rightarrow> string) \<Rightarrow> (string \<Rightarrow> jsdate) \<Rightarrow> jsval \<Rightarrow> string option parsed" where
  "publishAt_schema tmsg parse v =
     z_transform
       (\<lambda>value. case value of
                   None \<Rightarrow> Inr None
                 | Some d \<Rightarrow> (case date_toISOString d of Inl e \<Rightarrow> Inl e | Inr s \<Rightarrow> Inr (Some s)))
       (z_refine (\<lambda>value. case value of None \<Rightarrow> True | Some d \<Rightarrow> d \<noteq> None)
          ''Invalid publish date.''
          (z_transform (\<lambda>value. Inr (if truthy value then Some (parse (the value)) else None))
             (z_optional (z_string tmsg) v)))"

definition flag_schema :: "(jsval \<Rightarrow> string) \<Rightarrow> jsval \<Rightarrow> bool parsed" where
  \<comment> \<open>\<open>madeForKids\<close> and \<open>notifySubscribers\<close>\<close>
  "flag_schema tmsg v =
     z_transform (\<lambda>value. Inr (value = Some ''true'')) (z_optional (z_string tmsg) v)"

definition formSchema ::
  "(jsval \<Rightarrow> string) \<Rightarrow> (jsval \<Rightarrow> string) \<Rightarrow> (string \<Rightarrow> jsdate) \<Rightarrow> raw_form \<Rightarrow> payload parsed" where
  "formSchema tmsg emsg parse r =
     z_field (z_field (z_field (z_field (z_field (z_field (z_field (z_field (z_field
       (Inr ([], Some payload.make))
       (title_schema tmsg (r_title r)))
       (description_schema tmsg (r_description r)))
       (tags_schema tmsg (r_tags r)))
       (z_enum_privacy emsg (r_privacyStatus r)))
       (publishAt_schema tmsg parse (r_publishAt r)))
       (flag_schema tmsg (r_madeForKids r)))
       (flag_schema tmsg (r_notifySubscribers r)))
       (z_optional (z_string tmsg) (r_categoryId r)))
       (z_optional (z_string tmsg) (r_defaultLanguage r))"

text \<open>\<open>safeParse\<close>: the data, or the messages of the issues in their order.\<close>

definition safeParse ::
  "(jsval \<Rightarrow> string) \<Rightarrow> (jsval \<Rightarrow> string) \<Rightarrow> (string \<Rightarrow> jsdate) \<Rightarrow> raw_form
     \<Rightarrow> thrown + (string list + payload)" where
  "safeParse tmsg emsg parse r =
     (case formSchema tmsg emsg parse r of
        Inl e \<Rightarrow> Inl e
      | Inr ([], Some data) \<Rightarrow> Inr (Inr data)
      | Inr (issues, _) \<Rightarrow> Inr (Inl issues))"

subsection \<open>The handler\<close>

text \<open>What the handler needs from outside: the two message functions of zod, the date
  parser of the server, reading the bytes of a file, and \<open>uploadShort\<close> of
  \<open>lib/youtube\<close>, which returns the identifier and the address of the video or throws.\<close>

record upload_args =
  buffer :: "nat list"
  fileName :: string
  mimeType :: string
  metadata :: payload

record upload_response =
  videoId :: string
  url :: string

record host =
  zod_type_msg :: "jsval \<Rightarrow> string"
  zod_enum_msg :: "jsval \<Rightarrow> string"
  date_parse :: "string \<Rightarrow> jsdate"
  arrayBuffer :: "jsfile \<Rightarrow> thrown + nat list"
  uploadShort :: "upload_args \<Rightarrow> thrown + upload_response"

record http_response =
  http_status :: nat
  http_body :: json_data

definition json_error :: "string \<Rightarrow> nat \<Rightarrow> http_response" where
  \<comment> \<open>\<open>NextResponse.json({ error }, { status })\<close>\<close>
  "json_error msg st =
     \<lparr>http_status = st,
      http_body = \<lparr>error_prop = Some msg, videoId_prop = None, url_prop = None\<rparr>\<rparr>"

definition caught :: "thrown \<Rightarrow> http_response" where
  \<comment> \<open>the \<open>catch\<close> block\<close>
  "caught e =
     json_error (case e of ErrorObj m \<Rightarrow> m
                 | NonError \<Rightarrow> ''An unexpected error occurred while uploading the video.'') 500"

definition raw_of_formData :: "formdata \<Rightarrow> raw_form" where
  "raw_of_formData formData =
     \<lparr>r_title = fd_get formData ''title'',
      r_description = fd_get formData ''description'',
      r_tags = fd_get formData ''tags'',
      r_privacyStatus = (case fd_get formData ''privacyStatus'' of
                           Null \<Rightarrow> Str ''private''
                         | Undefined \<Rightarrow> Str ''private''
                         | v \<Rightarrow> v),
      r_publishAt = fd_get formData ''publishAt'',
      r_madeForKids = fd_get formData ''madeForKids'',
      r_notifySubscribers = fd_get formData ''notifySubscribers'',
      r_categoryId = fd_get formData ''categoryId'',
      r_defaultLanguage = fd_get formData ''defaultLanguage''\<rparr>"

text \<open>
  \<open>POST\<close>: the response, and the calls of \<open>uploadShort\<close> made on the way. The request is
  its form data, or what \<open>request.formData()\<close> throws on a body that is no form.
  \<open>POST_checked\<close> is the part of the \<open>try\<close> block that follows the two checks on the file.
\<close>

definition POST_checked :: "host \<Rightarrow> formdata \<Rightarrow> jsfile \<Rightarrow> http_response \<times> upload_args list" where
  "POST_checked h formData f =
     (case safeParse (zod_type_msg h) (zod_enum_msg h) (date_parse h)
             (raw_of_formData formData) of
        Inl e \<Rightarrow> (caught e, [])
      | Inr (Inl issues) \<Rightarrow> (json_error (join '' '' issues) 400, [])
      | Inr (Inr data) \<Rightarrow>
          (case arrayBuffer h f of
             Inl e \<Rightarrow> (caught e, [])
           | Inr bytes \<Rightarrow>
               (let args = \<lparr>buffer = bytes, fileName = file_name f,
                            mimeType = (if file_type f \<noteq> [] then file_type f
                                        else ''video/mp4''),
                            metadata = data\<rparr>
                in case uploadShort h args of
                     Inl e \<Rightarrow> (caught e, [args])
                   | Inr uploadResponse \<Rightarrow>
                       (\<lparr>http_status = 201,
                         http_body = \<lparr>error_prop = None,
                                      videoId_prop = Some (videoId uploadResponse),
                                      url_prop = Some (url uploadResponse)\<rparr>\<rparr>,
                        [args]))))"

definition POST :: "host \<Rightarrow> thrown + formdata \<Rightarrow> http_response \<times> upload_args list" where
  "POST h request =
     (case request of
        Inl e \<Rightarrow> (caught e, [])
      | Inr formData \<Rightarrow>
          (case fd_get formData ''video'' of
             FileObj f \<Rightarrow>
               if file_size f > MAX_FILE_SIZE_BYTES
               then (json_error ''Video file is too large.'' 400, [])
               else POST_checked h formData f
           | _ \<Rightarrow> (json_error ''Video file is required.'' 400, [])))"

text \<open>
  The page talking to this handler: the body of the request is the multipart encoding of
  the form data, which labels a file that has no type as \<open>application/octet-stream\<close>,
  and \<open>fetch\<close> resolves with the handler's response.
\<close>

definition multipart_entry :: "jsval \<Rightarrow> jsval" where
  "multipart_entry v =
     (case v of
        FileObj f \<Rightarrow>
          FileObj (if file_type f = [] then f\<lparr>file_type := ''application/octet-stream''\<rparr> else f)
      | _ \<Rightarrow> v)"

definition fetch_route :: "host \<Rightarrow> formdata \<Rightarrow> fetch_result" where
  "fetch_route h formData =
     (let received = map (\<lambda>(name, v). (name, multipart_entry v)) formData;
          r = fst (POST h (Inr received))
      in Resolved \<lparr>status = http_status r, json = Inr (http_body r)\<rparr>)"

section \<open>The rules of the request validator\<close>

text \<open>
  The rules of the request validator, one list of messages per field, stated apart from
  the combinators of the schema and to be compared with what the schema does: a title of
  at least 5 characters, a description of at least 10, one of the three privacy values, a
  publish date that parses when one is given, and strings where strings are expected. A
  field that the form does not have reaches the schema as \<open>null\<close>, which is no string and
  not \<open>undefined\<close> either.
\<close>

definition title_rule :: "(jsval \<Rightarrow> string) \<Rightarrow> jsval \<Rightarrow> string list" where
  "title_rule tmsg v =
     (case v of Str t \<Rightarrow> if length t \<ge> 5 then [] else [''Title is required.''] | _ \<Rightarrow> [tmsg v])"

definition description_rule :: "(jsval \<Rightarrow> string) \<Rightarrow> jsval \<Rightarrow> string list" where
  "description_rule tmsg v =
     (case v of Str d \<Rightarrow> if length d \<ge> 10 then [] else [''Description is required.'']
      | _ \<Rightarrow> [tmsg v])"

definition text_rule :: "(jsval \<Rightarrow> string) \<Rightarrow> jsval \<Rightarrow> string list" where
  \<comment> \<open>a field that is a string when it is given\<close>
  "text_rule tmsg v = (case v of Str s \<Rightarrow> [] | Undefined \<Rightarrow> [] | _ \<Rightarrow> [tmsg v])"

definition privacy_rule :: "(jsval \<Rightarrow> string) \<Rightarrow> jsval \<Rightarrow> string list" where
  "privacy_rule emsg v =
     (case v of
        Str s \<Rightarrow> if s \<in> {''public'', ''private'', ''unlisted''} then [] else [emsg v]
      | _ \<Rightarrow> [emsg v])"

definition publishAt_rule :: "(jsval \<Rightarrow> string) \<Rightarrow> (string \<Rightarrow> jsdate) \<Rightarrow> jsval \<Rightarrow> string list" where
  "publishAt_rule tmsg parse v =
     (case v of
        Str s \<Rightarrow> if s \<noteq> [] \<and> parse s = None then [''Invalid publish date.''] else []
      | Undefined \<Rightarrow> []
      | _ \<Rightarrow> [tmsg v])"

definition other_rules ::
  "(jsval \<Rightarrow> string) \<Rightarrow> (jsval \<Rightarrow> string) \<Rightarrow> (string \<Rightarrow> jsdate) \<Rightarrow> raw_form \<Rightarrow> string list" where
  \<comment> \<open>the fields after the title and the description\<close>
  "other_rules tmsg emsg parse r =
     text_rule tmsg (r_tags r) @ privacy_rule emsg (r_privacyStatus r)
     @ publishAt_rule tmsg parse (r_publishAt r) @ text_rule tmsg (r_madeForKids r)
     @ text_rule tmsg (r_notifySubscribers r) @ text_rule tmsg (r_categoryId r)
     @ text_rule tmsg (r_defaultLanguage r)"

definition violated_rules ::
  "(jsval \<Rightarrow> string) \<Rightarrow> (jsval \<Rightarrow> string) \<Rightarrow> (string \<Rightarrow> jsdate) \<Rightarrow> raw_form \<Rightarrow> string list" where
  "violated_rules tmsg emsg parse r =
     title_rule tmsg (r_title r) @ description_rule tmsg (r_description r)
     @ other_rules tmsg emsg parse r"

text \<open>A parse that raises exactly the given messages, and has a value when there are
  none.\<close>

definition yields :: "'a parsed \<Rightarrow> string list \<Rightarrow> bool" where
  "yields p issues = (\<exists>x. p = Inr (issues, x) \<and> (issues = [] \<longrightarrow> x \<noteq> None))"



text \<open>The identifiers drawn by \<open>randomId\<close> in a sequence of actions, in order.\<close>

fun drawn_ids :: "action list \<Rightarrow> string list" where
  "drawn_ids [] = []"
| "drawn_ids (AddToQueue rid # acts) = rid # drawn_ids acts"
| "drawn_ids (_ # acts) = drawn_ids acts"

section \<open>Example inputs\<close>

definition example_file :: jsfile where
  \<comment> \<open>a file of exactly 1 GiB whose MIME type the browser left empty\<close>
  "example_file = \<lparr>file_name = ''clip.mp4'', file_type = [], file_size = 1073741824\<rparr>"

definition example_parse :: "string \<Rightarrow> jsdate" where
  \<comment> \<open>the date parser of a host in the UTC time zone, on the strings of the examples;
      everything else is an invalid date\<close>
  "example_parse s =
     (if s = ''2024-05-01T09:00:00'' then Some 1714554000000
      else if s = ''2024-05-01T18:30:00'' then Some 1714588200000
      else if s = ''2024-05-01T09:00:00.000Z'' then Some 1714554000000
      else if s = ''2024-05-01T18:30:00.000Z'' then Some 1714588200000
      else None)"

definition example_host :: host where
  "example_host =
     \<lparr>zod_type_msg = (\<lambda>v. ''Expected string''),
      zod_enum_msg = (\<lambda>v. ''Invalid enum value''),
      date_parse = example_parse,
      arrayBuffer = (\<lambda>f. Inr []),
      uploadShort = (\<lambda>a. Inr \<lparr>videoId = ''abc123'',
                                url = ''https://www.youtube.com/watch?v=abc123''\<rparr>)\<rparr>"

definition example_form :: "jsfile \<Rightarrow> string \<Rightarrow> string \<Rightarrow> string \<Rightarrow> formdata" where
  "example_form f t d p =
     [(''video'', FileObj f), (''title'', Str t), (''description'', Str d),
      (''tags'', Str ''#shorts, cats''), (''privacyStatus'', Str ''private''),
      (''publishAt'', Str p), (''madeForKids'', Str ''false''),
      (''notifySubscribers'', Str ''true''), (''categoryId'', Str ''24''),
      (''defaultLanguage'', Str ''en'')]"

definition example_page :: page where
  \<comment> \<open>a short with a file, scheduled for 2024-05-01 at the default time and planned
      in the queue under its title, beside a plan under another title\<close>
  "example_page =
     run example_parse (initial_page ''#shorts'')
       [SetFile (Some example_file), SetTitle ''Cat jumps'',
        SetDescription ''A cat jumps over the fence'', SetScheduleDate ''2024-05-01'',
        AddToQueue ''k3j9x0ab'', SetTitle ''Dog sleeps'', AddToQueue ''0v8fq2lm'',
        SetTitle ''Cat jumps'']"

definition example_sent :: formdata where
  \<comment> \<open>the form data a submission of \<open>example_page\<close> sends\<close>
  "example_sent =
     [(''video'', FileObj example_file), (''title'', Str ''Cat jumps''),
      (''description'', Str ''A cat jumps over the fence''), (''tags'', Str ''#shorts''),
      (''privacyStatus'', Str ''private''), (''publishAt'', Str ''2024-05-01T09:00:00.000Z''),
      (''madeForKids'', Str ''false''), (''notifySubscribers'', Str ''false''),
      (''categoryId'', Str ''24''), (''defaultLanguage'', Str ''en'')]"

definition failing_host :: host where
  \<comment> \<open>a host whose provider rejects every upload\<close>
  "failing_host = example_host\<lparr>uploadShort := (\<lambda>a. Inl (ErrorObj ''quotaExceeded''))\<rparr>"


section \<open>Hashtag suggestions\<close>

lemma generateHashtags_length: "length (generateHashtags t d g) \<le> 8"
  by (simp add: generateHashtags_def Let_def)

lemma dedup_from_fresh: "x \<in> set (dedup_from seen xs) \<Longrightarrow> x \<notin> set seen"
proof (induction xs arbitrary: seen)
  case Nil
  then show ?case by simp
next
  case (Cons y ys)
  show ?case
  proof (cases "y \<in> set seen")
    case True
    with Cons show ?thesis by simp
  next
    case False
    with Cons.prems have "x = y \<or> x \<in> set (dedup_from (y # seen) ys)" by simp
    then show ?thesis
    proof
      assume "x = y" with False show ?thesis by simp
    next
      assume "x \<in> set (dedup_from (y # seen) ys)"
      from Cons.IH [OF this] show ?thesis by simp
    qed
  qed
qed

lemma dedup_from_distinct: "distinct (dedup_from seen xs)"
proof (induction xs arbitrary: seen)
  case Nil
  show ?case by simp
next
  case (Cons x xs)
  have "x \<notin> set (dedup_from (x # seen) xs)"
    using dedup_from_fresh [of x "x # seen" xs] by auto
  with Cons show ?case by simp
qed

lemma generateHashtags_distinct: "distinct (generateHashtags t d g)"
  by (simp add: generateHashtags_def Let_def dedup_def dedup_from_distinct)

lemma dedup_from_subset: "set (dedup_from seen xs) \<subseteq> set xs"
  by (induction xs arbitrary: seen) auto

lemma ranked_hashtags_hash: "e \<in> set (ranked_hashtags t d g) \<Longrightarrow> startsWith e ''#''"
  by (auto simp: ranked_hashtags_def startsWith_def)

text \<open>
  C7. The suggestions are at most 8 and pairwise different, and the ranked ones start
  with \<open>#\<close> (the three lemmas above). The hashtags taken from the description do not:
  the pattern that cleans them removes every character outside \<open>[a-z0-9_]\<close>, the leading
  \<open>#\<close> included. For the description \<open>#fun\<close> the only suggestion is \<open>fun\<close>; and a word
  that is both written as a hashtag and ranked is suggested twice, once without and once
  with the \<open>#\<close>.
\<close>

theorem generateHashtags_inline_without_hash:
  "generateHashtags [] ''#fun'' [] = [''fun'']
   \<and> \<not> startsWith ''fun'' ''#''
   \<and> generateHashtags ''Funny cats'' ''#funny'' [] = [''funny'', ''#funny'', ''#cats'']"
  by code_simp

section \<open>The publish date\<close>

lemma toISOString_examples:
  "toISOString 0 = ''1970-01-01T00:00:00.000Z''"
  "toISOString (-1) = ''1969-12-31T23:59:59.999Z''"
  "toISOString 951782400000 = ''2000-02-29T00:00:00.000Z''"
  "toISOString 1714588200000 = ''2024-05-01T18:30:00.000Z''"
  "toISOString 253402300800000 = ''+010000-01-01T00:00:00.000Z''"
  "toISOString (-62198755200000) = ''-000001-01-01T00:00:00.000Z''"
  "toISOString 8640000000000000 = ''+275760-09-13T00:00:00.000Z''"
  by code_simp+

lemma toISOString_not_empty: "toISOString t \<noteq> []"
  by (simp add: toISOString_def Let_def split: prod.splits)

lemma truthy_buildPublishDate:
  "truthy (buildPublishDate parse d t) = (buildPublishDate parse d t \<noteq> None)"
  by (cases "parse (d @ ''T'' @ (if t = [] then ''09:00'' else t) @ '':00'')")
     (simp_all add: buildPublishDate_def Let_def toISOString_not_empty)

text \<open>
  C6. \<open>buildPublishDate\<close> gives nothing for an empty date, and nothing when the host's
  parser finds the combined string invalid; an empty time counts as \<open>09:00\<close>; otherwise
  the result is the ISO form of the instant the parser gives to \<open>date\<close>T\<open>time\<close>:00, a
  string without offset, which a host reads as local time. For 2024-05-01 the string
  parsed is \<open>2024-05-01T09:00:00\<close> without a time and \<open>2024-05-01T18:30:00\<close> for 18:30.
\<close>

theorem buildPublishDate_resolves:
  "buildPublishDate parse [] time = None
   \<and> (parse (date @ ''T'' @ (if time = [] then ''09:00'' else time) @ '':00'') = None
        \<longrightarrow> buildPublishDate parse date time = None)
   \<and> (date \<noteq> [] \<longrightarrow> buildPublishDate parse date [] = buildPublishDate parse date ''09:00'')
   \<and> (date \<noteq> [] \<and> time \<noteq> [] \<and> parse (date @ ''T'' @ time @ '':00'') = Some ms
        \<longrightarrow> buildPublishDate parse date time = Some (toISOString ms))
   \<and> buildPublishDate parse ''2024-05-01'' [] = map_option toISOString (parse ''2024-05-01T09:00:00'')
   \<and> buildPublishDate parse ''2024-05-01'' ''18:30''
       = map_option toISOString (parse ''2024-05-01T18:30:00'')"
proof -
  have a: "safeToISOString (Some x) = map_option toISOString x" for x
    by (cases x) simp_all
  show ?thesis
    by (simp add: buildPublishDate_def Let_def a)
qed

theorem buildPublishDate_resolves_witness:
  "example_parse (''not-a-date'' @ ''T'' @ (if ''10:00'' = [] then ''09:00'' else ''10:00'') @ '':00'') = None
   \<and> buildPublishDate example_parse ''not-a-date'' ''10:00'' = None
   \<and> ''2024-05-01'' \<noteq> []
   \<and> buildPublishDate example_parse ''2024-05-01'' [] = Some ''2024-05-01T09:00:00.000Z''
   \<and> buildPublishDate example_parse ''2024-05-01'' ''09:00'' = Some ''2024-05-01T09:00:00.000Z''
   \<and> ''18:30'' \<noteq> []
   \<and> example_parse (''2024-05-01'' @ ''T'' @ ''18:30'' @ '':00'') = Some 1714588200000
   \<and> buildPublishDate example_parse ''2024-05-01'' ''18:30'' = Some ''2024-05-01T18:30:00.000Z''"
proof -
  have p1: "example_parse (''not-a-date'' @ ''T'' @ (if ''10:00'' = [] then ''09:00'' else ''10:00'') @ '':00'') = None"
    by code_simp
  have p2: "example_parse (''2024-05-01'' @ ''T'' @ ''18:30'' @ '':00'') = Some 1714588200000"
    by code_simp
  have i1: "toISOString 1714588200000 = ''2024-05-01T18:30:00.000Z''"
    by code_simp
  have i2: "buildPublishDate example_parse ''2024-05-01'' ''09:00'' = Some ''2024-05-01T09:00:00.000Z''"
    by code_simp
  have ne: "''2024-05-01'' \<noteq> []" "''18:30'' \<noteq> []"
    by simp_all
  from buildPublishDate_resolves [where parse = example_parse and date = "''not-a-date''"
      and time = "''10:00''"] p1
  have "buildPublishDate example_parse ''not-a-date'' ''10:00'' = None" by blast
  moreover from buildPublishDate_resolves [where parse = example_parse
      and date = "''2024-05-01''"] ne
  have "buildPublishDate example_parse ''2024-05-01'' [] = buildPublishDate example_parse ''2024-05-01'' ''09:00''"
    by blast
  moreover from buildPublishDate_resolves [where parse = example_parse
      and date = "''2024-05-01''" and time = "''18:30''" and ms = 1714588200000] ne p2
  have "buildPublishDate example_parse ''2024-05-01'' ''18:30'' = Some (toISOString 1714588200000)"
    by blast
  ultimately show ?thesis
    using p1 p2 i1 i2 ne by simp
qed

section \<open>The submission handler of the page\<close>

lemma submit_try_cases:
  "submit_try fr =
     (case fr of
        Rejected e \<Rightarrow> Inl e
      | Resolved r \<Rightarrow>
          (case json r of
             Inl e \<Rightarrow> Inl e
           | Inr data \<Rightarrow>
               if ok r then Inr data
               else Inl (ErrorObj (case error_prop data of None \<Rightarrow> ''Upload failed.'' | Some m \<Rightarrow> m))))"
  by (simp add: submit_try_def split: fetch_result.splits sum.splits)

text \<open>What \<open>handleSubmit\<close> does once both checks have passed, by the outcome of the
  \<open>try\<close> block.\<close>

lemma handleSubmit_sent:
  assumes "short_file st = Some f"
    and "buildPublishDate parse (scheduleDate st) (scheduleTime st) = None \<or> privacyStatus st \<noteq> Public"
  shows "handleSubmit parse fetch st =
     ((case submit_try (fetch (submit_formData st f
               (buildPublishDate parse (scheduleDate st) (scheduleTime st)))) of
         Inr data \<Rightarrow>
           resetForm (st\<lparr>error := None, result := Some data,
                         queue := map (mark_uploaded (title st) data) (queue st)\<rparr>)
       | Inl (ErrorObj m) \<Rightarrow> st\<lparr>error := Some m, result := None\<rparr>
       | Inl NonError \<Rightarrow> st\<lparr>error := Some ''Something went wrong.'', result := None\<rparr>)
        \<lparr>uploading := False\<rparr>,
      [submit_formData st f (buildPublishDate parse (scheduleDate st) (scheduleTime st))])"
  using assms
  by (auto simp: handleSubmit_def Let_def truthy_buildPublishDate
           split: sum.splits thrown.splits)

text \<open>
  C5. The two local checks of \<open>handleSubmit\<close>, in their order: without a file the
  submission stops with the message about the file, whatever the schedule and the
  privacy are, and nothing is sent; with a file, a publish date and public privacy it
  stops with the message about scheduled shorts, and nothing is sent; in every other
  case exactly one request is sent, with the form data of the state.
\<close>

theorem handleSubmit_presubmit:
  "(short_file st = None \<longrightarrow>
      handleSubmit parse fetch st
        = (st\<lparr>error := Some ''Attach a Short before uploading.'', result := None\<rparr>, []))
   \<and> (short_file st = Some f
        \<and> buildPublishDate parse (scheduleDate st) (scheduleTime st) = Some p
        \<and> privacyStatus st = Public \<longrightarrow>
      handleSubmit parse fetch st
        = (st\<lparr>error := Some ''Scheduled Shorts must use private or unlisted privacy until publish time.'',
              result := None\<rparr>, []))
   \<and> (short_file st = Some f
        \<and> (buildPublishDate parse (scheduleDate st) (scheduleTime st) = None
             \<or> privacyStatus st \<noteq> Public) \<longrightarrow>
      snd (handleSubmit parse fetch st)
        = [submit_formData st f (buildPublishDate parse (scheduleDate st) (scheduleTime st))])"
proof (intro conjI impI)
  assume "short_file st = None"
  then show "handleSubmit parse fetch st
        = (st\<lparr>error := Some ''Attach a Short before uploading.'', result := None\<rparr>, [])"
    by (simp add: handleSubmit_def)
next
  assume a: "short_file st = Some f
        \<and> buildPublishDate parse (scheduleDate st) (scheduleTime st) = Some p
        \<and> privacyStatus st = Public"
  then have "buildPublishDate parse (scheduleDate st) (scheduleTime st) \<noteq> None"
    by simp
  then have "truthy (buildPublishDate parse (scheduleDate st) (scheduleTime st))"
    unfolding truthy_buildPublishDate .
  with a show "handleSubmit parse fetch st
        = (st\<lparr>error := Some ''Scheduled Shorts must use private or unlisted privacy until publish time.'',
              result := None\<rparr>, [])"
    by (simp add: handleSubmit_def Let_def)
next
  assume "short_file st = Some f
        \<and> (buildPublishDate parse (scheduleDate st) (scheduleTime st) = None
             \<or> privacyStatus st \<noteq> Public)"
  then show "snd (handleSubmit parse fetch st)
        = [submit_formData st f (buildPublishDate parse (scheduleDate st) (scheduleTime st))]"
    by (simp add: handleSubmit_sent)
qed

theorem handleSubmit_presubmit_witness:
  "short_file ((initial_page [])\<lparr>scheduleDate := ''2024-05-01'', privacyStatus := Public\<rparr>) = None
   \<and> handleSubmit example_parse (fetch_route example_host)
         ((initial_page [])\<lparr>scheduleDate := ''2024-05-01'', privacyStatus := Public\<rparr>)
       = ((initial_page [])\<lparr>scheduleDate := ''2024-05-01'', privacyStatus := Public,
             error := Some ''Attach a Short before uploading.'', result := None\<rparr>, [])
   \<and> short_file (example_page\<lparr>privacyStatus := Public\<rparr>) = Some example_file
   \<and> buildPublishDate example_parse (scheduleDate (example_page\<lparr>privacyStatus := Public\<rparr>))
         (scheduleTime (example_page\<lparr>privacyStatus := Public\<rparr>)) = Some ''2024-05-01T09:00:00.000Z''
   \<and> privacyStatus (example_page\<lparr>privacyStatus := Public\<rparr>) = Public
   \<and> handleSubmit example_parse (fetch_route example_host) (example_page\<lparr>privacyStatus := Public\<rparr>)
       = (example_page\<lparr>privacyStatus := Public,
             error := Some ''Scheduled Shorts must use private or unlisted privacy until publish time.'',
             result := None\<rparr>, [])
   \<and> short_file example_page = Some example_file
   \<and> privacyStatus example_page = Private
   \<and> snd (handleSubmit example_parse (fetch_route example_host) example_page) = [example_sent]"
proof -
  let ?a = "(initial_page [])\<lparr>scheduleDate := ''2024-05-01'', privacyStatus := Public\<rparr>"
  let ?b = "example_page\<lparr>privacyStatus := Public\<rparr>"
  have a1: "short_file ?a = None"
    by (simp add: initial_page_def)
  have b1: "short_file ?b = Some example_file"
    by code_simp
  have b2: "buildPublishDate example_parse (scheduleDate ?b) (scheduleTime ?b)
              = Some ''2024-05-01T09:00:00.000Z''"
    by code_simp
  have b3: "privacyStatus ?b = Public"
    by simp
  have c1: "short_file example_page = Some example_file"
    by code_simp
  have c2: "privacyStatus example_page = Private"
    by code_simp
  have c3: "submit_formData example_page example_file
              (buildPublishDate example_parse (scheduleDate example_page) (scheduleTime example_page))
            = example_sent"
    by code_simp
  from handleSubmit_presubmit [where st = ?a and parse = example_parse
      and fetch = "fetch_route example_host"] a1
  have a: "handleSubmit example_parse (fetch_route example_host) ?a
             = (?a\<lparr>error := Some ''Attach a Short before uploading.'', result := None\<rparr>, [])"
    by blast
  from handleSubmit_presubmit [where st = ?b and parse = example_parse
      and fetch = "fetch_route example_host" and f = example_file
      and p = "''2024-05-01T09:00:00.000Z''"] b1 b2 b3
  have b: "handleSubmit example_parse (fetch_route example_host) ?b
             = (?b\<lparr>error := Some ''Scheduled Shorts must use private or unlisted privacy until publish time.'',
                   result := None\<rparr>, [])"
    by blast
  from handleSubmit_presubmit [where st = example_page and parse = example_parse
      and fetch = "fetch_route example_host" and f = example_file] c1 c2
  have "snd (handleSubmit example_parse (fetch_route example_host) example_page)
          = [submit_formData example_page example_file
              (buildPublishDate example_parse (scheduleDate example_page) (scheduleTime example_page))]"
    by simp
  then have c: "snd (handleSubmit example_parse (fetch_route example_host) example_page) = [example_sent]"
    by (simp only: c3)
  show ?thesis
    using a1 a b1 b2 b3 b c1 c2 c by simp
qed

lemma mark_uploaded_id [simp]: "item_id (mark_uploaded t data item) = item_id item"
  by (simp add: mark_uploaded_def)

lemma mark_uploaded_title [simp]: "item_title (mark_uploaded t data item) = item_title item"
  by (simp add: mark_uploaded_def)

lemma handleSubmit_queue:
  "queue (fst (handleSubmit parse fetch st)) = queue st
   \<or> (\<exists>data. queue (fst (handleSubmit parse fetch st)) = map (mark_uploaded (title st) data) (queue st))"
  by (auto simp: handleSubmit_def Let_def resetForm_def split: option.splits sum.splits thrown.splits)

lemma step_queue_ids:
  "map item_id (queue (step parse st a)) = map item_id (queue st) @ drawn_ids [a]"
proof (cases a)
  case (Submit fetch)
  from handleSubmit_queue [of parse fetch st] show ?thesis
    unfolding Submit by (auto simp: comp_def)
qed (simp_all add: addToQueue_def Let_def syncTagsWithHashtags_def resetForm_def)


lemma drawn_ids_append: "drawn_ids (xs @ ys) = drawn_ids xs @ drawn_ids ys"
  by (induction xs rule: drawn_ids.induct) simp_all

lemma run_snoc: "run parse st (acts @ [a]) = step parse (run parse st acts) a"
  by (simp add: run_def)

lemma run_queue_ids:
  "map item_id (queue (run parse st acts)) = map item_id (queue st) @ drawn_ids acts"
proof (induction acts rule: rev_induct)
  case Nil
  show ?case by (simp add: run_def)
next
  case (snoc a acts)
  then show ?case
    by (simp add: run_snoc step_queue_ids drawn_ids_append)
qed




text \<open>
  C8. After a response whose status is no success, the message shown is the \<open>error\<close>
  property of the JSON body when the body has one, and \<open>Upload failed.\<close> when it has
  none. When the body is not JSON, \<open>response.json()\<close> throws an error of its own and the
  message shown is the message of that error; \<open>Something went wrong.\<close> is shown only for
  a thrown value that is no \<open>Error\<close>.
\<close>

theorem handleSubmit_error_message:
  assumes "short_file st = Some f"
    and "buildPublishDate parse (scheduleDate st) (scheduleTime st) = None \<or> privacyStatus st \<noteq> Public"
    and "fetch (submit_formData st f (buildPublishDate parse (scheduleDate st) (scheduleTime st)))
           = Resolved r"
    and "\<not> ok r"
  shows "error (fst (handleSubmit parse fetch st))
         = Some (case json r of
                   Inr data \<Rightarrow> (case error_prop data of Some m \<Rightarrow> m | None \<Rightarrow> ''Upload failed.'')
                 | Inl (ErrorObj m) \<Rightarrow> m
                 | Inl NonError \<Rightarrow> ''Something went wrong.'')"
  unfolding handleSubmit_sent [OF assms(1) assms(2)] assms(3)
  using assms(4)
  by (simp add: submit_try_cases split: sum.splits thrown.splits option.splits)

theorem handleSubmit_error_message_witness:
  "short_file example_page = Some example_file
   \<and> privacyStatus example_page = Private
   \<and> \<not> ok \<lparr>status = 500, json = Inr \<lparr>error_prop = Some ''quotaExceeded'', videoId_prop = None,
                                       url_prop = None\<rparr>\<rparr>
   \<and> error (fst (handleSubmit example_parse (fetch_route failing_host) example_page))
       = Some ''quotaExceeded''
   \<and> error (fst (handleSubmit example_parse
        (\<lambda>formData. Resolved \<lparr>status = 500, json = Inr \<lparr>error_prop = None, videoId_prop = None,
                                                      url_prop = None\<rparr>\<rparr>) example_page))
       = Some ''Upload failed.''"
proof -
  let ?q = "\<lparr>status = 500,
             json = Inr \<lparr>error_prop = Some ''quotaExceeded'', videoId_prop = None,
                         url_prop = None\<rparr>\<rparr>"
  let ?e = "\<lparr>status = 500,
             json = Inr \<lparr>error_prop = None, videoId_prop = None, url_prop = None\<rparr>\<rparr>"
  have h2: "short_file example_page = Some example_file"
    by code_simp
  have p: "privacyStatus example_page = Private"
    by code_simp
  then have h3: "buildPublishDate example_parse (scheduleDate example_page) (scheduleTime example_page) = None
                 \<or> privacyStatus example_page \<noteq> Public"
    by simp
  have h4: "submit_formData example_page example_file
              (buildPublishDate example_parse (scheduleDate example_page) (scheduleTime example_page))
            = example_sent"
    by code_simp
  have bad: "fetch_route failing_host example_sent = Resolved ?q"
    by code_simp
  have nok: "\<not> ok ?q" "\<not> ok ?e"
    by (simp_all add: ok_def)
  from handleSubmit_error_message [OF h2 h3, where fetch = "fetch_route failing_host" and r = ?q]
    bad nok(1)
  have a: "error (fst (handleSubmit example_parse (fetch_route failing_host) example_page))
             = Some ''quotaExceeded''"
    by (simp add: h4)
  from handleSubmit_error_message [OF h2 h3, where fetch = "\<lambda>formData. Resolved ?e" and r = ?e]
    nok(2)
  have b: "error (fst (handleSubmit example_parse (\<lambda>formData. Resolved ?e) example_page))
             = Some ''Upload failed.''"
    by simp
  show ?thesis
    using h2 p nok(1) a b by simp
qed

text \<open>A gateway answers 502 with an HTML page: the message shown is the parser's.\<close>

theorem handleSubmit_unparsed_body_message:
  "error (fst (handleSubmit example_parse
        (\<lambda>formData. Resolved \<lparr>status = 502,
                                json = Inl (ErrorObj ''Unexpected token < in JSON at position 0'')\<rparr>)
        example_page))
     = Some ''Unexpected token < in JSON at position 0''
   \<and> ''Unexpected token < in JSON at position 0'' \<noteq> ''Upload failed.''
   \<and> ''Unexpected token < in JSON at position 0'' \<noteq> ''Something went wrong.''"
  by code_simp

text \<open>
  C9. \<open>randomId\<close> draws its string from \<open>Math.random\<close> and \<open>addToQueue\<close> does not compare
  it with the identifiers in the queue: the identifiers in the queue are the strings
  drawn, in the order of the draws, and they are pairwise different exactly when the
  draws are.
\<close>

theorem queue_ids_are_drawn_ids:
  "map item_id (queue (run parse (initial_page hashtags) acts)) = drawn_ids acts
   \<and> distinct (map item_id (queue (run parse (initial_page hashtags) acts))) = distinct (drawn_ids acts)"
  by (simp add: run_queue_ids initial_page_def)

theorem queue_ids_are_drawn_ids_witness:
  "map item_id (queue example_page) = [''k3j9x0ab'', ''0v8fq2lm'']
   \<and> distinct (map item_id (queue example_page))"
  using queue_ids_are_drawn_ids [of example_parse "''#shorts''"
      "[SetFile (Some example_file), SetTitle ''Cat jumps'',
        SetDescription ''A cat jumps over the fence'', SetScheduleDate ''2024-05-01'',
        AddToQueue ''k3j9x0ab'', SetTitle ''Dog sleeps'', AddToQueue ''0v8fq2lm'',
        SetTitle ''Cat jumps'']"]
  by (simp add: example_page_def)

text \<open>Two draws of \<open>Math.random\<close> that give 0.5 both give the identifier \<open>i\<close>.\<close>

theorem queue_ids_collide:
  "map item_id (queue (run example_parse (initial_page []) [AddToQueue ''i'', AddToQueue ''i'']))
     = [''i'', ''i'']
   \<and> \<not> distinct (map item_id
         (queue (run example_parse (initial_page []) [AddToQueue ''i'', AddToQueue ''i''])))"
  by code_simp

section \<open>The upload route\<close>

lemma yields_title: "yields (title_schema tmsg v) (title_rule tmsg v)"
  by (cases v) (auto simp: yields_def title_schema_def title_rule_def z_min_def z_string_def)

lemma yields_description: "yields (description_schema tmsg v) (description_rule tmsg v)"
  by (cases v)
     (auto simp: yields_def description_schema_def description_rule_def z_min_def z_string_def)

lemma yields_tags: "yields (tags_schema tmsg v) (text_rule tmsg v)"
  by (cases v)
     (auto simp: yields_def tags_schema_def text_rule_def z_transform_def z_optional_def z_string_def)

lemma yields_privacy: "yields (z_enum_privacy emsg v) (privacy_rule emsg v)"
  by (cases v) (auto simp: yields_def z_enum_privacy_def privacy_rule_def)

lemma yields_flag: "yields (flag_schema tmsg v) (text_rule tmsg v)"
  by (cases v)
     (auto simp: yields_def flag_schema_def text_rule_def z_transform_def z_optional_def z_string_def)

lemma yields_text: "yields (z_optional (z_string tmsg) v) (text_rule tmsg v)"
  by (cases v) (auto simp: yields_def text_rule_def z_optional_def z_string_def)

lemma yields_publishAt: "yields (publishAt_schema tmsg parse v) (publishAt_rule tmsg parse v)"
proof (cases v)
  case (Str s)
  show ?thesis
  proof (cases "s = []")
    case True
    with Str show ?thesis
      by (simp add: yields_def publishAt_schema_def publishAt_rule_def z_transform_def
            z_refine_def z_optional_def z_string_def)
  next
    case False
    with Str show ?thesis
      by (cases "parse s")
         (simp_all add: yields_def publishAt_schema_def publishAt_rule_def z_transform_def
            z_refine_def z_optional_def z_string_def date_toISOString_def)
  qed
qed (simp_all add: yields_def publishAt_schema_def publishAt_rule_def z_transform_def
       z_refine_def z_optional_def z_string_def)

lemma yields_field:
  assumes "yields pf issues1" and "yields px issues2"
  shows "yields (z_field pf px) (issues1 @ issues2)"
  using assms by (auto simp: yields_def z_field_def)

lemma yields_formSchema:
  "yields (formSchema tmsg emsg parse r) (violated_rules tmsg emsg parse r)"
proof -
  have start: "yields (Inr ([], Some payload.make)) []"
    by (simp add: yields_def)
  have "yields (formSchema tmsg emsg parse r)
          ((((((((([] @ title_rule tmsg (r_title r)) @ description_rule tmsg (r_description r))
             @ text_rule tmsg (r_tags r)) @ privacy_rule emsg (r_privacyStatus r))
             @ publishAt_rule tmsg parse (r_publishAt r)) @ text_rule tmsg (r_madeForKids r))
             @ text_rule tmsg (r_notifySubscribers r)) @ text_rule tmsg (r_categoryId r))
             @ text_rule tmsg (r_defaultLanguage r))"
    unfolding formSchema_def
    by (intro yields_field start yields_title yields_description yields_tags yields_privacy
          yields_publishAt yields_flag yields_text)
  then show ?thesis
    by (simp add: violated_rules_def other_rules_def)
qed

lemma safeParse_rules:
  "(violated_rules tmsg emsg parse r \<noteq> []
      \<longrightarrow> safeParse tmsg emsg parse r = Inr (Inl (violated_rules tmsg emsg parse r)))
   \<and> (violated_rules tmsg emsg parse r = []
      \<longrightarrow> (\<exists>data. safeParse tmsg emsg parse r = Inr (Inr data)))"
  using yields_formSchema [of tmsg emsg parse r]
  by (auto simp: yields_def safeParse_def split: list.splits)

lemma POST_checked_rejected:
  assumes "violated_rules (zod_type_msg h) (zod_enum_msg h) (date_parse h) (raw_of_formData formData) \<noteq> []"
  shows "POST_checked h formData f
         = (json_error (join '' ''
              (violated_rules (zod_type_msg h) (zod_enum_msg h) (date_parse h) (raw_of_formData formData)))
              400, [])"
  using safeParse_rules [of "zod_type_msg h" "zod_enum_msg h" "date_parse h" "raw_of_formData formData"]
    assms
  by (simp add: POST_checked_def)

lemma POST_checked_accepted:
  assumes "violated_rules (zod_type_msg h) (zod_enum_msg h) (date_parse h) (raw_of_formData formData) = []"
  shows "http_status (fst (POST_checked h formData f)) \<in> {201, 500}"
proof -
  from safeParse_rules [of "zod_type_msg h" "zod_enum_msg h" "date_parse h" "raw_of_formData formData"]
    assms
  obtain data where "safeParse (zod_type_msg h) (zod_enum_msg h) (date_parse h)
                       (raw_of_formData formData) = Inr (Inr data)"
    by blast
  then show ?thesis
    by (simp add: POST_checked_def Let_def caught_def json_error_def split: sum.splits)
qed

text \<open>
  C3. For a request whose body is form data, the two checks on the file come first. A
  request whose \<open>video\<close> entry is missing or is no file is answered with status 400 and the
  message that a file is required; a file of more than 1 GiB, 1073741825 bytes for one,
  with status 400 and the message that it is too large. Both answers are fixed: no other
  field, and nothing of the host, enters them, and \<open>uploadShort\<close> is not called. A file of
  at most 1 GiB, exactly 1073741824 bytes for one, passes, and the answer is that of the
  schema validation and of what follows it. A request whose body is no form data has no
  fields: \<open>request.formData()\<close> throws, and the \<open>catch\<close> block answers with status 500 and
  the message of what was thrown.
\<close>

theorem POST_file_checks:
  "MAX_FILE_SIZE_BYTES = 1073741824
   \<and> ((\<forall>f. fd_get formData ''video'' \<noteq> FileObj f)
        \<longrightarrow> POST h (Inr formData) = (json_error ''Video file is required.'' 400, []))
   \<and> (fd_get formData ''video'' = FileObj f \<and> file_size f > 1073741824
        \<longrightarrow> POST h (Inr formData) = (json_error ''Video file is too large.'' 400, []))
   \<and> (fd_get formData ''video'' = FileObj f \<and> file_size f \<le> 1073741824
        \<longrightarrow> POST h (Inr formData) = POST_checked h formData f)
   \<and> POST h (Inl e)
       = (json_error (case e of ErrorObj m \<Rightarrow> m
                      | NonError \<Rightarrow> ''An unexpected error occurred while uploading the video.'')
            500, [])"
proof -
  have m: "MAX_FILE_SIZE_BYTES = 1073741824"
    by (simp add: MAX_FILE_SIZE_BYTES_def)
  have "(\<forall>f. fd_get formData ''video'' \<noteq> FileObj f)
        \<longrightarrow> POST h (Inr formData) = (json_error ''Video file is required.'' 400, [])"
    by (cases "fd_get formData ''video''") (simp_all add: POST_def)
  moreover have "POST h (Inl e)
       = (json_error (case e of ErrorObj m \<Rightarrow> m
                      | NonError \<Rightarrow> ''An unexpected error occurred while uploading the video.'')
            500, [])"
    by (simp add: POST_def caught_def)
  ultimately show ?thesis
    by (simp add: POST_def m)
qed

theorem POST_file_checks_witness:
  "(\<forall>f. fd_get [(''title'', Str ''abcde''), (''video'', Str ''clip.mp4'')] ''video'' \<noteq> FileObj f)
   \<and> POST example_host (Inr [(''title'', Str ''abcde''), (''video'', Str ''clip.mp4'')])
       = (\<lparr>http_status = 400,
           http_body = \<lparr>error_prop = Some ''Video file is required.'', videoId_prop = None,
                        url_prop = None\<rparr>\<rparr>, [])
   \<and> (\<forall>f. fd_get [(''title'', Str ''abcde'')] ''video'' \<noteq> FileObj f)
   \<and> POST example_host (Inr [(''title'', Str ''abcde'')])
       = (\<lparr>http_status = 400,
           http_body = \<lparr>error_prop = Some ''Video file is required.'', videoId_prop = None,
                        url_prop = None\<rparr>\<rparr>, [])
   \<and> file_size (example_file\<lparr>file_size := 1073741825\<rparr>) > 1073741824
   \<and> POST example_host
         (Inr (example_form (example_file\<lparr>file_size := 1073741825\<rparr>) ''abcd'' ''too short'' ''not-a-date''))
       = (\<lparr>http_status = 400,
           http_body = \<lparr>error_prop = Some ''Video file is too large.'', videoId_prop = None,
                        url_prop = None\<rparr>\<rparr>, [])
   \<and> file_size example_file = 1073741824
   \<and> POST example_host (Inr (example_form example_file ''abcd'' ''too short'' ''not-a-date''))
       = POST_checked example_host (example_form example_file ''abcd'' ''too short'' ''not-a-date'')
           example_file
   \<and> fst (POST example_host (Inr (example_form example_file ''abcd'' ''too short'' ''not-a-date'')))
       = \<lparr>http_status = 400,
          http_body = \<lparr>error_prop = Some ''Title is required. Description is required. Invalid publish date.'',
                       videoId_prop = None, url_prop = None\<rparr>\<rparr>
   \<and> POST example_host (Inl (ErrorObj ''Failed to parse body as FormData.''))
       = (\<lparr>http_status = 500,
           http_body = \<lparr>error_prop = Some ''Failed to parse body as FormData.'', videoId_prop = None,
                        url_prop = None\<rparr>\<rparr>, [])"
proof -
  let ?big = "example_file\<lparr>file_size := 1073741825\<rparr>"
  from POST_file_checks [where h = example_host and e = "ErrorObj ''Failed to parse body as FormData.''"]
  have n: "POST example_host (Inl (ErrorObj ''Failed to parse body as FormData.''))
             = (json_error ''Failed to parse body as FormData.'' 500, [])"
    by simp
  have a: "\<forall>f. fd_get [(''title'', Str ''abcde''), (''video'', Str ''clip.mp4'')] ''video'' \<noteq> FileObj f"
    by (simp add: fd_get_def)
  have b: "\<forall>f. fd_get [(''title'', Str ''abcde'')] ''video'' \<noteq> FileObj f"
    by (simp add: fd_get_def)
  have c: "fd_get (example_form ?big ''abcd'' ''too short'' ''not-a-date'') ''video'' = FileObj ?big"
    "file_size ?big > 1073741824"
    by (simp_all add: fd_get_def example_form_def)
  have d: "fd_get (example_form example_file ''abcd'' ''too short'' ''not-a-date'') ''video''
             = FileObj example_file"
    "file_size example_file = 1073741824"
    by (simp_all add: fd_get_def example_form_def example_file_def)
  have e: "fst (POST_checked example_host (example_form example_file ''abcd'' ''too short'' ''not-a-date'')
             example_file)
           = \<lparr>http_status = 400,
              http_body = \<lparr>error_prop = Some ''Title is required. Description is required. Invalid publish date.'',
                           videoId_prop = None, url_prop = None\<rparr>\<rparr>"
    by code_simp
  from POST_file_checks [where formData = "[(''title'', Str ''abcde''), (''video'', Str ''clip.mp4'')]"
      and h = example_host] a
  have a': "POST example_host (Inr [(''title'', Str ''abcde''), (''video'', Str ''clip.mp4'')])
             = (json_error ''Video file is required.'' 400, [])"
    by blast
  from POST_file_checks [where formData = "[(''title'', Str ''abcde'')]" and h = example_host] b
  have b': "POST example_host (Inr [(''title'', Str ''abcde'')])
             = (json_error ''Video file is required.'' 400, [])"
    by blast
  from POST_file_checks [where formData = "example_form ?big ''abcd'' ''too short'' ''not-a-date''"
      and h = example_host and f = ?big] c
  have c': "POST example_host (Inr (example_form ?big ''abcd'' ''too short'' ''not-a-date''))
             = (json_error ''Video file is too large.'' 400, [])"
    by blast
  from POST_file_checks [where formData = "example_form example_file ''abcd'' ''too short'' ''not-a-date''"
      and h = example_host and f = example_file] d
  have d': "POST example_host (Inr (example_form example_file ''abcd'' ''too short'' ''not-a-date''))
             = POST_checked example_host (example_form example_file ''abcd'' ''too short'' ''not-a-date'')
                 example_file"
    by simp
  show ?thesis
    using a a' b b' c(2) c' d(2) d' e n
    by (simp add: json_error_def)
qed

text \<open>A request whose body is JSON has no \<open>video\<close> field: \<open>request.formData()\<close> throws
  a TypeError, and the answer is 500 with its message, not 400.\<close>

theorem POST_no_form_data_answered_500:
  "POST example_host (Inl (ErrorObj ''Failed to parse body as FormData.''))
     = (\<lparr>http_status = 500,
         http_body = \<lparr>error_prop = Some ''Failed to parse body as FormData.'', videoId_prop = None,
                      url_prop = None\<rparr>\<rparr>, [])
   \<and> http_status (fst (POST example_host (Inl (ErrorObj ''Failed to parse body as FormData.''))))
       \<noteq> 400"
  by (simp add: POST_def caught_def json_error_def)

text \<open>
  C2. For a request whose file has passed: the schema raises exactly the messages of the
  rules the fields violate, in the order of the fields. When there is one, the answer
  is status 400 with these messages joined by a space, and \<open>uploadShort\<close> is not
  called; when there is none, the answer is not 400 (it is 201, or 500 when reading the
  file or the upload throws). A title of 4 characters is rejected with the message of
  the title among those joined, and a description of 9 with that of the description; a
  title of 5 and a description of 10 violate no rule, and the request is then rejected
  only for a rule that another field violates.
\<close>

theorem POST_validation:
  assumes "fd_get formData ''video'' = FileObj f"
    and "file_size f \<le> MAX_FILE_SIZE_BYTES"
    and "rules = violated_rules (zod_type_msg h) (zod_enum_msg h) (date_parse h)
                   (raw_of_formData formData)"
  shows "(rules \<noteq> [] \<longrightarrow> POST h (Inr formData) = (json_error (join '' '' rules) 400, []))
       \<and> (rules = [] \<longrightarrow> http_status (fst (POST h (Inr formData))) \<in> {201, 500})
       \<and> (\<forall>t. fd_get formData ''title'' = Str t \<and> length t = 4
              \<longrightarrow> http_status (fst (POST h (Inr formData))) = 400
                  \<and> ''Title is required.'' \<in> set rules)
       \<and> (\<forall>d. fd_get formData ''description'' = Str d \<and> length d = 9
              \<longrightarrow> http_status (fst (POST h (Inr formData))) = 400
                  \<and> ''Description is required.'' \<in> set rules)
       \<and> (\<forall>t d. fd_get formData ''title'' = Str t \<and> length t = 5
                \<and> fd_get formData ''description'' = Str d \<and> length d = 10
              \<longrightarrow> rules = other_rules (zod_type_msg h) (zod_enum_msg h) (date_parse h)
                              (raw_of_formData formData)
                  \<and> (http_status (fst (POST h (Inr formData))) = 400) = (rules \<noteq> []))"
proof -
  have p: "POST h (Inr formData) = POST_checked h formData f"
    using assms(1,2) by (simp add: POST_def)
  have 1: "rules \<noteq> [] \<longrightarrow> POST h (Inr formData) = (json_error (join '' '' rules) 400, [])"
    unfolding p assms(3) using POST_checked_rejected [of h formData f] by blast
  have 2: "rules = [] \<longrightarrow> http_status (fst (POST h (Inr formData))) \<in> {201, 500}"
    unfolding p assms(3) using POST_checked_accepted [of h formData f] by blast
  from 1 have 400: "rules \<noteq> [] \<Longrightarrow> http_status (fst (POST h (Inr formData))) = 400"
    by (simp add: json_error_def)
  from 2 have not400: "rules = [] \<Longrightarrow> http_status (fst (POST h (Inr formData))) \<noteq> 400"
    by auto
  have 3: "\<forall>t. fd_get formData ''title'' = Str t \<and> length t = 4
              \<longrightarrow> http_status (fst (POST h (Inr formData))) = 400
                  \<and> ''Title is required.'' \<in> set rules"
  proof (intro allI impI)
    fix t
    assume "fd_get formData ''title'' = Str t \<and> length t = 4"
    then have "''Title is required.'' \<in> set rules"
      by (simp add: assms(3) violated_rules_def title_rule_def raw_of_formData_def)
    moreover from this have "rules \<noteq> []"
      by auto
    ultimately show "http_status (fst (POST h (Inr formData))) = 400
                  \<and> ''Title is required.'' \<in> set rules"
      using 400 by simp
  qed
  have 4: "\<forall>d. fd_get formData ''description'' = Str d \<and> length d = 9
              \<longrightarrow> http_status (fst (POST h (Inr formData))) = 400
                  \<and> ''Description is required.'' \<in> set rules"
  proof (intro allI impI)
    fix d
    assume "fd_get formData ''description'' = Str d \<and> length d = 9"
    then have "''Description is required.'' \<in> set rules"
      by (simp add: assms(3) violated_rules_def description_rule_def raw_of_formData_def)
    moreover from this have "rules \<noteq> []"
      by auto
    ultimately show "http_status (fst (POST h (Inr formData))) = 400
                  \<and> ''Description is required.'' \<in> set rules"
      using 400 by simp
  qed
  have 5: "\<forall>t d. fd_get formData ''title'' = Str t \<and> length t = 5
                \<and> fd_get formData ''description'' = Str d \<and> length d = 10
              \<longrightarrow> rules = other_rules (zod_type_msg h) (zod_enum_msg h) (date_parse h)
                              (raw_of_formData formData)
                  \<and> (http_status (fst (POST h (Inr formData))) = 400) = (rules \<noteq> [])"
  proof (intro allI impI)
    fix t d
    assume "fd_get formData ''title'' = Str t \<and> length t = 5
                \<and> fd_get formData ''description'' = Str d \<and> length d = 10"
    then have "rules = other_rules (zod_type_msg h) (zod_enum_msg h) (date_parse h)
                              (raw_of_formData formData)"
      by (simp add: assms(3) violated_rules_def title_rule_def description_rule_def
            raw_of_formData_def)
    moreover have "(http_status (fst (POST h (Inr formData))) = 400) = (rules \<noteq> [])"
      using 400 not400 by blast
    ultimately show "rules = other_rules (zod_type_msg h) (zod_enum_msg h) (date_parse h)
                              (raw_of_formData formData)
                  \<and> (http_status (fst (POST h (Inr formData))) = 400) = (rules \<noteq> [])"
      by simp
  qed
  from 1 2 3 4 5 show ?thesis by blast
qed

theorem POST_validation_witness:
  "fd_get (example_form example_file ''abcd'' ''012345678'' []) ''video'' = FileObj example_file
   \<and> file_size example_file \<le> MAX_FILE_SIZE_BYTES
   \<and> fd_get (example_form example_file ''abcd'' ''012345678'' []) ''title'' = Str ''abcd''
   \<and> length ''abcd'' = 4
   \<and> fd_get (example_form example_file ''abcd'' ''012345678'' []) ''description'' = Str ''012345678''
   \<and> length ''012345678'' = 9
   \<and> violated_rules (zod_type_msg example_host) (zod_enum_msg example_host) (date_parse example_host)
        (raw_of_formData (example_form example_file ''abcd'' ''012345678'' []))
       = [''Title is required.'', ''Description is required.'']
   \<and> POST example_host (Inr (example_form example_file ''abcd'' ''012345678'' []))
       = (\<lparr>http_status = 400,
           http_body = \<lparr>error_prop = Some ''Title is required. Description is required.'',
                        videoId_prop = None, url_prop = None\<rparr>\<rparr>, [])
   \<and> fd_get (example_form example_file ''abcde'' ''0123456789'' []) ''title'' = Str ''abcde''
   \<and> length ''abcde'' = 5
   \<and> fd_get (example_form example_file ''abcde'' ''0123456789'' []) ''description'' = Str ''0123456789''
   \<and> length ''0123456789'' = 10
   \<and> other_rules (zod_type_msg example_host) (zod_enum_msg example_host) (date_parse example_host)
        (raw_of_formData (example_form example_file ''abcde'' ''0123456789'' [])) = []
   \<and> http_status (fst (POST example_host (Inr (example_form example_file ''abcde'' ''0123456789'' []))))
       = 201"
proof -
  let ?bad = "example_form example_file ''abcd'' ''012345678'' []"
  let ?good = "example_form example_file ''abcde'' ''0123456789'' []"
  let ?rules = "violated_rules (zod_type_msg example_host) (zod_enum_msg example_host)
                  (date_parse example_host)"
  let ?others = "other_rules (zod_type_msg example_host) (zod_enum_msg example_host)
                  (date_parse example_host)"
  have v: "fd_get ?bad ''video'' = FileObj example_file" "fd_get ?good ''video'' = FileObj example_file"
    by (simp_all add: fd_get_def example_form_def)
  have tb: "fd_get ?bad ''title'' = Str ''abcd''" "fd_get ?bad ''description'' = Str ''012345678''"
    by (simp_all add: fd_get_def example_form_def)
  have tg: "fd_get ?good ''title'' = Str ''abcde''" "fd_get ?good ''description'' = Str ''0123456789''"
    by (simp_all add: fd_get_def example_form_def)
  have s: "file_size example_file \<le> MAX_FILE_SIZE_BYTES"
    by (simp add: example_file_def MAX_FILE_SIZE_BYTES_def)
  have rb: "?rules (raw_of_formData ?bad) = [''Title is required.'', ''Description is required.'']"
    by code_simp
  have og: "?others (raw_of_formData ?good) = []"
    by code_simp
  have st: "http_status (fst (POST example_host (Inr ?good))) = 201"
    by code_simp
  note bad = POST_validation [OF v(1) s refl, of example_host]
  note good = POST_validation [OF v(2) s refl, of example_host]
  from bad tb have "http_status (fst (POST example_host (Inr ?bad))) = 400
      \<and> ''Title is required.'' \<in> set (?rules (raw_of_formData ?bad))
      \<and> ''Description is required.'' \<in> set (?rules (raw_of_formData ?bad))"
    by simp
  then have "?rules (raw_of_formData ?bad) \<noteq> []"
    by auto
  with bad have "POST example_host (Inr ?bad)
          = (json_error (join '' '' (?rules (raw_of_formData ?bad))) 400, [])"
    by blast
  then have b: "POST example_host (Inr ?bad)
          = (\<lparr>http_status = 400,
             http_body = \<lparr>error_prop = Some ''Title is required. Description is required.'',
                          videoId_prop = None, url_prop = None\<rparr>\<rparr>, [])"
    by (simp add: rb json_error_def)
  from good tg have e: "?rules (raw_of_formData ?good) = ?others (raw_of_formData ?good)"
    by simp
  with og have "?rules (raw_of_formData ?good) = []"
    by simp
  with good have "http_status (fst (POST example_host (Inr ?good))) \<in> {201, 500}"
    by blast
  with st have g: "http_status (fst (POST example_host (Inr ?good))) = 201"
    by simp
  show ?thesis
    using v(1) s tb tg rb b og g by simp
qed

text \<open>
  C4. On the server a publish date that is a non-empty string and does not parse is a
  violated rule: the answer is status 400 and carries \<open>Invalid publish date.\<close>; an empty
  string counts as no publish date. On the page a date and time that do not parse give
  no publish date: the submission is sent all the same, without a \<open>publishAt\<close> entry.
\<close>

theorem publishAt_server_and_page:
  "(fd_get formData ''video'' = FileObj f \<and> file_size f \<le> MAX_FILE_SIZE_BYTES
      \<and> fd_get formData ''publishAt'' = Str v \<and> v \<noteq> [] \<and> date_parse h v = None
    \<longrightarrow> http_status (fst (POST h (Inr formData))) = 400
        \<and> snd (POST h (Inr formData)) = []
        \<and> ''Invalid publish date.''
            \<in> set (violated_rules (zod_type_msg h) (zod_enum_msg h) (date_parse h)
                     (raw_of_formData formData))
        \<and> error_prop (http_body (fst (POST h (Inr formData))))
            = Some (join '' '' (violated_rules (zod_type_msg h) (zod_enum_msg h) (date_parse h)
                                  (raw_of_formData formData))))
   \<and> (short_file st = Some g
      \<and> parse (scheduleDate st @ ''T'' @ (if scheduleTime st = [] then ''09:00'' else scheduleTime st)
                @ '':00'') = None
    \<longrightarrow> buildPublishDate parse (scheduleDate st) (scheduleTime st) = None
        \<and> snd (handleSubmit parse fetch st) = [submit_formData st g None]
        \<and> fd_get (submit_formData st g None) ''publishAt'' = Null)"
proof (rule conjI)
  show "fd_get formData ''video'' = FileObj f \<and> file_size f \<le> MAX_FILE_SIZE_BYTES
      \<and> fd_get formData ''publishAt'' = Str v \<and> v \<noteq> [] \<and> date_parse h v = None
    \<longrightarrow> http_status (fst (POST h (Inr formData))) = 400
        \<and> snd (POST h (Inr formData)) = []
        \<and> ''Invalid publish date.''
            \<in> set (violated_rules (zod_type_msg h) (zod_enum_msg h) (date_parse h)
                     (raw_of_formData formData))
        \<and> error_prop (http_body (fst (POST h (Inr formData))))
            = Some (join '' '' (violated_rules (zod_type_msg h) (zod_enum_msg h) (date_parse h)
                                  (raw_of_formData formData)))"
  proof (rule impI)
    let ?rules = "violated_rules (zod_type_msg h) (zod_enum_msg h) (date_parse h)
                    (raw_of_formData formData)"
    assume a: "fd_get formData ''video'' = FileObj f \<and> file_size f \<le> MAX_FILE_SIZE_BYTES
      \<and> fd_get formData ''publishAt'' = Str v \<and> v \<noteq> [] \<and> date_parse h v = None"
    then have m: "''Invalid publish date.'' \<in> set ?rules"
      by (simp add: violated_rules_def other_rules_def publishAt_rule_def raw_of_formData_def)
    then have ne: "?rules \<noteq> []"
      by auto
    from a have "POST h (Inr formData) = POST_checked h formData f"
      by (simp add: POST_def)
    with POST_checked_rejected [OF ne, of f]
    have "POST h (Inr formData) = (json_error (join '' '' ?rules) 400, [])"
      by simp
    with m show "http_status (fst (POST h (Inr formData))) = 400
        \<and> snd (POST h (Inr formData)) = []
        \<and> ''Invalid publish date.'' \<in> set ?rules
        \<and> error_prop (http_body (fst (POST h (Inr formData)))) = Some (join '' '' ?rules)"
      by (simp add: json_error_def)
  qed
next
  show "short_file st = Some g
      \<and> parse (scheduleDate st @ ''T'' @ (if scheduleTime st = [] then ''09:00'' else scheduleTime st)
                @ '':00'') = None
    \<longrightarrow> buildPublishDate parse (scheduleDate st) (scheduleTime st) = None
        \<and> snd (handleSubmit parse fetch st) = [submit_formData st g None]
        \<and> fd_get (submit_formData st g None) ''publishAt'' = Null"
  proof (rule impI)
    assume a: "short_file st = Some g
      \<and> parse (scheduleDate st @ ''T'' @ (if scheduleTime st = [] then ''09:00'' else scheduleTime st)
                @ '':00'') = None"
    then have n: "buildPublishDate parse (scheduleDate st) (scheduleTime st) = None"
      by (simp add: buildPublishDate_def Let_def)
    with a have "snd (handleSubmit parse fetch st) = [submit_formData st g None]"
      by (simp add: handleSubmit_sent)
    moreover have "fd_get (submit_formData st g None) ''publishAt'' = Null"
      by (simp add: submit_formData_def fd_append_def fd_get_def Let_def)
    ultimately show "buildPublishDate parse (scheduleDate st) (scheduleTime st) = None
        \<and> snd (handleSubmit parse fetch st) = [submit_formData st g None]
        \<and> fd_get (submit_formData st g None) ''publishAt'' = Null"
      using n by simp
  qed
qed

theorem publishAt_server_and_page_witness:
  "fd_get (example_form example_file ''abcde'' ''0123456789'' ''not-a-date'') ''video'' = FileObj example_file
   \<and> file_size example_file \<le> MAX_FILE_SIZE_BYTES
   \<and> fd_get (example_form example_file ''abcde'' ''0123456789'' ''not-a-date'') ''publishAt''
       = Str ''not-a-date''
   \<and> ''not-a-date'' \<noteq> []
   \<and> date_parse example_host ''not-a-date'' = None
   \<and> fst (POST example_host (Inr (example_form example_file ''abcde'' ''0123456789'' ''not-a-date'')))
       = \<lparr>http_status = 400,
          http_body = \<lparr>error_prop = Some ''Invalid publish date.'', videoId_prop = None,
                       url_prop = None\<rparr>\<rparr>
   \<and> short_file (example_page\<lparr>scheduleDate := ''not-a-date''\<rparr>) = Some example_file
   \<and> example_parse ''not-a-dateT09:00:00'' = None
   \<and> buildPublishDate example_parse ''not-a-date'' [] = None
   \<and> snd (handleSubmit example_parse (fetch_route example_host)
            (example_page\<lparr>scheduleDate := ''not-a-date''\<rparr>))
       = [[(''video'', FileObj example_file), (''title'', Str ''Cat jumps''),
           (''description'', Str ''A cat jumps over the fence''), (''tags'', Str ''#shorts''),
           (''privacyStatus'', Str ''private''), (''madeForKids'', Str ''false''),
           (''notifySubscribers'', Str ''false''), (''categoryId'', Str ''24''),
           (''defaultLanguage'', Str ''en'')]]"
proof -
  let ?fd = "example_form example_file ''abcde'' ''0123456789'' ''not-a-date''"
  let ?st = "example_page\<lparr>scheduleDate := ''not-a-date''\<rparr>"
  have s1: "fd_get ?fd ''video'' = FileObj example_file"
    and s3: "fd_get ?fd ''publishAt'' = Str ''not-a-date''"
    by (simp_all add: fd_get_def example_form_def)
  have s2: "file_size example_file \<le> MAX_FILE_SIZE_BYTES"
    by (simp add: example_file_def MAX_FILE_SIZE_BYTES_def)
  have s4: "''not-a-date'' \<noteq> []"
    by simp
  have s5: "date_parse example_host ''not-a-date'' = None"
    by code_simp
  have r: "violated_rules (zod_type_msg example_host) (zod_enum_msg example_host)
             (date_parse example_host) (raw_of_formData ?fd) = [''Invalid publish date.'']"
    by code_simp
  from publishAt_server_and_page [where formData = ?fd and f = example_file and h = example_host
      and v = "''not-a-date''"] s1 s2 s3 s4 s5
  have "http_status (fst (POST example_host (Inr ?fd))) = 400
        \<and> error_prop (http_body (fst (POST example_host (Inr ?fd))))
            = Some (join '' '' (violated_rules (zod_type_msg example_host) (zod_enum_msg example_host)
                                  (date_parse example_host) (raw_of_formData ?fd)))"
    by blast
  then have a: "http_status (fst (POST example_host (Inr ?fd))) = 400
        \<and> error_prop (http_body (fst (POST example_host (Inr ?fd)))) = Some ''Invalid publish date.''"
    by (simp add: r)
  have rest: "videoId_prop (http_body (fst (POST example_host (Inr ?fd)))) = None
        \<and> url_prop (http_body (fst (POST example_host (Inr ?fd)))) = None"
    by code_simp
  from a rest have a': "fst (POST example_host (Inr ?fd))
       = \<lparr>http_status = 400,
          http_body = \<lparr>error_prop = Some ''Invalid publish date.'', videoId_prop = None,
                       url_prop = None\<rparr>\<rparr>"
    by (cases "fst (POST example_host (Inr ?fd))", cases "http_body (fst (POST example_host (Inr ?fd)))")
       auto
  have c1: "short_file ?st = Some example_file"
    by code_simp
  have c2: "scheduleDate ?st = ''not-a-date''" "scheduleTime ?st = []"
    by code_simp+
  have c3: "example_parse ''not-a-dateT09:00:00'' = None"
    by code_simp
  have c4: "submit_formData ?st example_file None
           = [(''video'', FileObj example_file), (''title'', Str ''Cat jumps''),
           (''description'', Str ''A cat jumps over the fence''), (''tags'', Str ''#shorts''),
           (''privacyStatus'', Str ''private''), (''madeForKids'', Str ''false''),
           (''notifySubscribers'', Str ''false''), (''categoryId'', Str ''24''),
           (''defaultLanguage'', Str ''en'')]"
    by code_simp
  from publishAt_server_and_page [where st = ?st and g = example_file and parse = example_parse
      and fetch = "fetch_route example_host"] c1 c2 c3
  have b: "buildPublishDate example_parse ''not-a-date'' [] = None
        \<and> snd (handleSubmit example_parse (fetch_route example_host) ?st)
            = [submit_formData ?st example_file None]"
    by simp
  show ?thesis
    using s1 s2 s3 s5 a' c1 c3 b by (simp add: c4)
qed

text \<open>A \<open>publishAt\<close> entry that is the empty string is present and is no date, and the
  request is accepted, as one without a publish date.\<close>

theorem POST_empty_publishAt_accepted:
  "fd_get (example_form example_file ''abcde'' ''0123456789'' []) ''publishAt'' = Str []
   \<and> date_parse example_host [] = None
   \<and> http_status (fst (POST example_host (Inr (example_form example_file ''abcde'' ''0123456789'' []))))
       = 201
   \<and> map (\<lambda>a. p_publishAt (metadata a))
        (snd (POST example_host (Inr (example_form example_file ''abcde'' ''0123456789'' []))))
       = [None]"
  by code_simp

text \<open>An empty \<open>publishAt\<close> string passes the schema for every date parser, as no publish
  date.\<close>

lemma publishAt_schema_empty: "publishAt_schema tmsg parse (Str []) = Inr ([], Some None)"
  by (simp add: publishAt_schema_def z_transform_def z_refine_def z_optional_def z_string_def)

text \<open>
  C10. Whenever the handler calls \<open>uploadShort\<close>, the MIME type it passes is that of the
  file, and \<open>video/mp4\<close> when that of the file is the empty string.
\<close>

theorem POST_mimeType:
  assumes "fd_get formData ''video'' = FileObj f"
    and "a \<in> set (snd (POST h (Inr formData)))"
  shows "mimeType a = (if file_type f = [] then ''video/mp4'' else file_type f)"
  using assms
  by (simp add: POST_def POST_checked_def Let_def split: if_splits sum.splits)

theorem POST_mimeType_witness:
  "fd_get (example_form example_file ''abcde'' ''0123456789'' []) ''video'' = FileObj example_file
   \<and> file_type example_file = []
   \<and> map mimeType (snd (POST example_host (Inr (example_form example_file ''abcde'' ''0123456789'' []))))
       = [''video/mp4'']
   \<and> fd_get (example_form (example_file\<lparr>file_type := ''video/webm''\<rparr>) ''abcde'' ''0123456789'' [])
        ''video'' = FileObj (example_file\<lparr>file_type := ''video/webm''\<rparr>)
   \<and> map mimeType (snd (POST example_host
        (Inr (example_form (example_file\<lparr>file_type := ''video/webm''\<rparr>) ''abcde'' ''0123456789'' []))))
       = [''video/webm'']"
proof -
  let ?w = "example_file\<lparr>file_type := ''video/webm''\<rparr>"
  let ?fd = "example_form example_file ''abcde'' ''0123456789'' []"
  let ?fw = "example_form ?w ''abcde'' ''0123456789'' []"
  have v: "fd_get ?fd ''video'' = FileObj example_file" "fd_get ?fw ''video'' = FileObj ?w"
    by (simp_all add: fd_get_def example_form_def)
  have t: "file_type example_file = []" "file_type ?w = ''video/webm''"
    by (simp_all add: example_file_def)
  have n: "length (snd (POST example_host (Inr ?fd))) = 1"
    "length (snd (POST example_host (Inr ?fw))) = 1"
    by code_simp+
  from n(1) obtain a where a: "snd (POST example_host (Inr ?fd)) = [a]"
    by (cases "snd (POST example_host (Inr ?fd))") auto
  from n(2) obtain b where b: "snd (POST example_host (Inr ?fw)) = [b]"
    by (cases "snd (POST example_host (Inr ?fw))") auto
  from POST_mimeType [OF v(1), of a example_host] a t(1)
  have a': "mimeType a = ''video/mp4''"
    by simp
  from POST_mimeType [OF v(2), of b example_host] b t(2)
  have b': "mimeType b = ''video/webm''"
    by simp
  show ?thesis
    using v t(1) by (simp add: a b a' b')
qed

text \<open>
  A form without a \<open>publishAt\<close> entry does not pass the schema: \<open>formData.get\<close> gives
  \<open>null\<close> for it, and \<open>optional()\<close> admits \<open>undefined\<close> only. The page sends no such entry for
  a short that is not scheduled, so this handler answers that submission with status 400.
\<close>

lemma POST_without_publishAt:
  assumes "fd_get formData ''video'' = FileObj f"
    and "file_size f \<le> MAX_FILE_SIZE_BYTES"
    and "fd_get formData ''publishAt'' = Null"
  shows "http_status (fst (POST h (Inr formData))) = 400"
    and "zod_type_msg h Null
           \<in> set (violated_rules (zod_type_msg h) (zod_enum_msg h) (date_parse h)
                    (raw_of_formData formData))"
proof -
  let ?rules = "violated_rules (zod_type_msg h) (zod_enum_msg h) (date_parse h)
                  (raw_of_formData formData)"
  show m: "zod_type_msg h Null \<in> set ?rules"
    using assms(3)
    by (simp add: violated_rules_def other_rules_def publishAt_rule_def raw_of_formData_def)
  then have "?rules \<noteq> []"
    by auto
  from POST_checked_rejected [OF this, of f] assms(1,2)
  show "http_status (fst (POST h (Inr formData))) = 400"
    by (simp add: POST_def json_error_def)
qed

lemma unscheduled_submission_rejected:
  "error (fst (handleSubmit example_parse (fetch_route example_host)
                 (example_page\<lparr>scheduleDate := []\<rparr>)))
     = Some ''Expected string''"
  by code_simp


end
